theory Spec2Isabelle
  imports Main "HOL-Library.Word"
begin

unbundle bit_operations_syntax

section \<open>Data model: the member and task tables\<close>

text \<open>
  The program keeps its two tables (Members, Tasks) in pandas data frames. A cell of a
  frame holds text, an integer (the sheet reader turns numeric text into numbers) or the
  missing value NaN (which pandas writes into the cells that a concatenation or a new
  column leaves open). Floating-point cells are outside this model. Text is a
  \<^typ>\<open>string\<close>, one \<^typ>\<open>char\<close> per character (code points below 256).
\<close>

datatype cell = Str string | Num int | NaN

text \<open>
  A row gives the cell under every column label; only the labels listed in
  \<open>columns\<close> are part of the frame, and every read below is guarded by that list,
  as a read of a missing column raises \<open>KeyError\<close> in pandas. The labels of a
  frame are taken to be distinct. Rows are kept in index order; the index is the default
  one (positions \<open>0, 1, ...\<close>).
\<close>

type_synonym row = "string \<Rightarrow> cell"

record dataframe =
  columns :: "string list"
  rows :: "row list"

datatype py_error = KeyError string | IndexError

text \<open>\<open>df.empty\<close>: an axis of length 0.\<close>

definition df_empty :: "dataframe \<Rightarrow> bool" where
  "df_empty df = (rows df = [] \<or> columns df = [])"

text \<open>
  Elementwise \<open>==\<close> of two cells, as in \<open>members_df["Domain"] == domain\<close>:
  NaN is equal to nothing, itself included.
\<close>

definition cell_eq :: "cell \<Rightarrow> cell \<Rightarrow> bool" where
  "cell_eq a b = (a \<noteq> NaN \<and> a = b)"

text \<open>A row built from a dictionary, as \<open>pd.DataFrame([d])\<close> does; other labels are NaN.\<close>

definition dict_row :: "(string \<times> cell) list \<Rightarrow> row" where
  "dict_row d = (\<lambda>c. case map_of d c of Some v \<Rightarrow> v | None \<Rightarrow> NaN)"

section \<open>Password codec\<close>

subsection \<open>Text\<close>

text \<open>
  \<open>str.encode()\<close> is UTF-8: a character below 128 is one byte, a character from
  128 to 255 is two bytes.
\<close>

definition encode_char :: "char \<Rightarrow> 8 word list" where
  "encode_char c =
     (let n = (of_char c :: nat)
      in if n < 128 then [of_nat n] else [of_nat (192 + n div 64), of_nat (128 + n mod 64)])"

definition encode :: "string \<Rightarrow> 8 word list" where
  "encode s = concat (map encode_char s)"

text \<open>
  \<open>str.lower()\<close> on the characters below 256: the ASCII capitals and the Latin-1
  capitals (192 to 222, without the multiplication sign 215) move up by 32.
\<close>

definition lower_char :: "char \<Rightarrow> char" where
  "lower_char c =
     (let n = (of_char c :: nat)
      in if (65 \<le> n \<and> n \<le> 90) \<or> (192 \<le> n \<and> n \<le> 222 \<and> n \<noteq> 215)
         then char_of (n + 32) else c)"

definition lower :: "string \<Rightarrow> string" where
  "lower s = map lower_char s"

text \<open>\<open>str(x)\<close> of a cell: text is itself, an integer is its decimal form, NaN is \<open>nan\<close>.\<close>

fun str_nat :: "nat \<Rightarrow> string" where
  "str_nat n =
     (if n < 10 then [''0123456789'' ! n]
      else str_nat (n div 10) @ [''0123456789'' ! (n mod 10)])"

definition str_int :: "int \<Rightarrow> string" where
  "str_int i = (if i < 0 then ''-'' @ str_nat (nat (- i)) else str_nat (nat i))"

fun py_str :: "cell \<Rightarrow> string" where
  "py_str (Str s) = s"
| "py_str (Num i) = str_int i"
| "py_str NaN = ''nan''"

subsection \<open>SHA-256 (\<open>hashlib.sha256\<close>, FIPS 180-4)\<close>

definition rotr :: "nat \<Rightarrow> 32 word \<Rightarrow> 32 word" where
  "rotr n x = drop_bit n x OR push_bit (32 - n) x"

definition ch :: "32 word \<Rightarrow> 32 word \<Rightarrow> 32 word \<Rightarrow> 32 word" where
  "ch x y z = (x AND y) XOR (NOT x AND z)"

definition maj :: "32 word \<Rightarrow> 32 word \<Rightarrow> 32 word \<Rightarrow> 32 word" where
  "maj x y z = (x AND y) XOR (x AND z) XOR (y AND z)"

definition bsig0 :: "32 word \<Rightarrow> 32 word" where
  "bsig0 x = rotr 2 x XOR rotr 13 x XOR rotr 22 x"

definition bsig1 :: "32 word \<Rightarrow> 32 word" where
  "bsig1 x = rotr 6 x XOR rotr 11 x XOR rotr 25 x"

definition ssig0 :: "32 word \<Rightarrow> 32 word" where
  "ssig0 x = rotr 7 x XOR rotr 18 x XOR drop_bit 3 x"

definition ssig1 :: "32 word \<Rightarrow> 32 word" where
  "ssig1 x = rotr 17 x XOR rotr 19 x XOR drop_bit 10 x"

text \<open>
  The constants of the standard (sections 4.2.2 and 5.3.3): the first 32 bits of the
  fractional parts of the cube roots of the first 64 primes, and of the square roots of
  the first 8 primes. \<open>root_floor r n t 0\<close> is the largest integer below \<open>2 ^ n\<close>
  whose \<open>r\<close>-th power is at most \<open>t\<close>, found bit by bit.
\<close>

definition first_primes :: "nat list" where
  "first_primes = filter (\<lambda>p. list_all (\<lambda>d. p mod d \<noteq> 0) [2..<p]) [2..<312]"

fun root_floor :: "nat \<Rightarrow> nat \<Rightarrow> int \<Rightarrow> int \<Rightarrow> int" where
  "root_floor r 0 t acc = acc"
| "root_floor r (Suc n) t acc =
     (let c = acc + 2 ^ n in root_floor r n t (if c ^ r \<le> t then c else acc))"

definition frac_root32 :: "nat \<Rightarrow> nat \<Rightarrow> 32 word" where
  "frac_root32 r p = of_int (root_floor r 36 (int p * 2 ^ (32 * r)) 0)"

definition sha_K :: "32 word list" where
  "sha_K = map (frac_root32 3) first_primes"

type_synonym sha_state =
  "32 word \<times> 32 word \<times> 32 word \<times> 32 word \<times> 32 word \<times> 32 word \<times> 32 word \<times> 32 word"

definition sha_H0 :: sha_state where
  "sha_H0 =
     (let h = map (frac_root32 2) (take 8 first_primes)
      in (h ! 0, h ! 1, h ! 2, h ! 3, h ! 4, h ! 5, h ! 6, h ! 7))"

text \<open>Padding: the byte 128, zero bytes up to 56 modulo 64, the bit length in 8 bytes.\<close>

definition be64 :: "nat \<Rightarrow> 8 word list" where
  "be64 n = map (\<lambda>i. ucast (drop_bit (8 * (7 - i)) (of_nat n :: 64 word))) [0..<8]"

definition pad :: "8 word list \<Rightarrow> 8 word list" where
  "pad m = m @ [128] @ replicate ((119 - length m mod 64) mod 64) 0 @ be64 (8 * length m)"

fun be_words :: "8 word list \<Rightarrow> 32 word list" where
  "be_words (a # b # c # d # bs) =
     (push_bit 24 (ucast a) OR push_bit 16 (ucast b) OR push_bit 8 (ucast c) OR ucast d)
       # be_words bs"
| "be_words bs = []"

definition blocks :: "32 word list \<Rightarrow> 32 word list list" where
  "blocks ws = map (\<lambda>i. take 16 (drop (16 * i) ws)) [0..<length ws div 16]"

fun extend_schedule :: "nat \<Rightarrow> 32 word list \<Rightarrow> 32 word list" where
  "extend_schedule 0 w = w"
| "extend_schedule (Suc n) w =
     (let t = length w
      in extend_schedule n
           (w @ [ssig1 (w ! (t - 2)) + w ! (t - 7) + ssig0 (w ! (t - 15)) + w ! (t - 16)]))"

definition sha_round :: "sha_state \<Rightarrow> 32 word \<times> 32 word \<Rightarrow> sha_state" where
  "sha_round s kw =
     (case s of (a, b, c, d, e, f, g, h) \<Rightarrow>
      case kw of (k, w) \<Rightarrow>
        let t1 = h + bsig1 e + ch e f g + k + w;
            t2 = bsig0 a + maj a b c
        in (t1 + t2, a, b, c, d + t1, e, f, g))"

definition compress :: "sha_state \<Rightarrow> 32 word list \<Rightarrow> sha_state" where
  "compress hs block =
     (case hs of (h0, h1, h2, h3, h4, h5, h6, h7) \<Rightarrow>
      case foldl sha_round hs (zip sha_K (extend_schedule 48 block)) of
        (a, b, c, d, e, f, g, h) \<Rightarrow>
          (h0 + a, h1 + b, h2 + c, h3 + d, h4 + e, h5 + f, h6 + g, h7 + h))"

definition sha256 :: "8 word list \<Rightarrow> 32 word list" where
  "sha256 m =
     (case foldl compress sha_H0 (blocks (be_words (pad m))) of
        (a, b, c, d, e, f, g, h) \<Rightarrow> [a, b, c, d, e, f, g, h])"

definition hex32 :: "32 word \<Rightarrow> string" where
  "hex32 w = map (\<lambda>i. ''0123456789abcdef'' ! unat (drop_bit (4 * (7 - i)) w AND 15)) [0..<8]"

definition hexdigest :: "32 word list \<Rightarrow> string" where
  "hexdigest ws = concat (map hex32 ws)"

text \<open>\<open>hash_password\<close> (lines 57-59).\<close>

definition hash_password :: "string \<Rightarrow> string" where
  "hash_password password = hexdigest (sha256 (encode password))"

section \<open>Role hierarchy resolver\<close>

text \<open>
  The body of the \<open>try\<close> block of \<open>get_subordinates\<close> (lines 164-214). A read of a
  missing column is the error value \<open>Inl (KeyError c)\<close>.
\<close>

definition active_names :: "(row \<Rightarrow> bool) \<Rightarrow> dataframe \<Rightarrow> py_error + cell list" where
  "active_names p df =
     (if ''Status'' \<notin> set (columns df) then Inl (KeyError ''Status'')
      else Inr (map (\<lambda>r. r ''Name'')
                  (filter (\<lambda>r. p r \<and> r ''Status'' = Str ''Active'') (rows df))))"

definition get_subordinates_try :: "string \<Rightarrow> dataframe \<Rightarrow> py_error + cell list" where
  "get_subordinates_try member_name members_df =
     (if ''Name'' \<notin> set (columns members_df) then Inl (KeyError ''Name'')
      else case filter (\<lambda>r. r ''Name'' = Str member_name) (rows members_df) of
        [] \<Rightarrow> Inr []
      | member_row # _ \<Rightarrow>
          if ''Role'' \<notin> set (columns members_df) then Inl (KeyError ''Role'')
          else let member_role = member_row ''Role'' in
            if member_role = Str ''Dev'' then
              active_names (\<lambda>r. True) members_df
            else if member_role = Str ''Core Head'' then
              active_names (\<lambda>r. r ''Role'' \<in> set [Str ''Domain Head'', Str ''Core Head''])
                members_df
            else if member_role = Str ''Domain Head'' then
              (if ''Domain'' \<in> set (columns members_df) then
                 let domain = member_row ''Domain'' in
                 active_names (\<lambda>r. r ''Role'' = Str ''Associate Head''
                                   \<and> cell_eq (r ''Domain'') domain) members_df
               else
                 active_names (\<lambda>r. r ''Role'' = Str ''Associate Head'') members_df)
            else if member_role = Str ''Associate Head'' then
              (if ''ReportsTo'' \<in> set (columns members_df) then
                 active_names (\<lambda>r. r ''Role'' = Str ''Junior Head''
                                   \<and> r ''ReportsTo'' = Str member_name) members_df
               else
                 active_names (\<lambda>r. r ''Role'' = Str ''Junior Head'') members_df)
            else Inr [])"

text \<open>\<open>get_subordinates\<close> (lines 158-216): any exception of the body gives the empty list.\<close>

definition get_subordinates :: "string \<Rightarrow> dataframe \<Rightarrow> cell list" where
  "get_subordinates member_name members_df =
     (if df_empty members_df then []
      else case get_subordinates_try member_name members_df of
        Inl e \<Rightarrow> []
      | Inr names \<Rightarrow> names)"

section \<open>Authentication service\<close>

text \<open>
  The test of line 242: the stored text has 64 characters and every character of its
  lower-case form is one of \<open>0123456789abcdef\<close>.
\<close>

definition looks_like_hash :: "string \<Rightarrow> bool" where
  "looks_like_hash stored_password =
     (length stored_password = 64
      \<and> list_all (\<lambda>c. c \<in> set ''0123456789abcdef'') (lower stored_password))"

text \<open>The password comparison of lines 239-252, for the row found for the user.\<close>

definition credentials_match :: "string \<Rightarrow> row \<Rightarrow> dataframe \<Rightarrow> bool" where
  "credentials_match password user_row members_df =
     (if ''Password'' \<in> set (columns members_df) then
        let stored_password = py_str (user_row ''Password'')
        in if looks_like_hash stored_password
           then hash_password password = stored_password
           else password = stored_password
      else password = ''password123'')"

text \<open>
  \<open>authenticate_user\<close> (lines 218-254) returns the tuple (success, user, role,
  message); \<open>None\<close> of Python is \<open>None\<close> here. The read of the Name column is
  not inside a \<open>try\<close>, so a frame without that column raises.
\<close>

type_synonym auth_result = "bool \<times> string option \<times> cell option \<times> string"

definition authenticate_user :: "string \<Rightarrow> string \<Rightarrow> dataframe \<Rightarrow> py_error + auth_result" where
  "authenticate_user username password members_df =
     (if df_empty members_df then Inr (False, None, None, ''No users found'')
      else if ''Name'' \<notin> set (columns members_df) then Inl (KeyError ''Name'')
      else case filter (\<lambda>r. r ''Name'' = Str username) (rows members_df) of
        [] \<Rightarrow> Inr (False, None, None, ''User not found'')
      | user_row # _ \<Rightarrow>
          let user_status = (if ''Status'' \<in> set (columns members_df)
                             then user_row ''Status'' else Str ''Active'');
              user_role = (if ''Role'' \<in> set (columns members_df)
                           then user_row ''Role'' else Str [])
          in if user_role \<noteq> Str ''Dev'' \<and> user_status \<noteq> Str ''Active'' then
               (if user_status = Str ''Pending'' then
                  Inr (False, None, None, ''Account pending approval'')
                else if user_status = Str ''Suspended'' then
                  Inr (False, None, None, ''Account suspended'')
                else Inr (False, None, None, ''Account inactive''))
             else if credentials_match password user_row members_df then
               Inr (True, Some username, Some user_role, ''Success'')
             else Inr (False, None, None, ''Invalid credentials''))"

section \<open>Membership lifecycle service\<close>

subsection \<open>Frame operations\<close>

text \<open>\<open>pd.DataFrame([d])\<close>: one row, the columns are the keys of the dictionary.\<close>

definition single_row_frame :: "(string \<times> cell) list \<Rightarrow> dataframe" where
  "single_row_frame d = \<lparr>columns = map fst d, rows = [dict_row d]\<rparr>"

text \<open>
  \<open>pd.concat([df, pd.DataFrame([d])], ignore_index=True)\<close>: the columns of both
  frames, those of \<open>df\<close> first; a cell that one of the frames does not have is NaN.
\<close>

definition concat_row :: "dataframe \<Rightarrow> (string \<times> cell) list \<Rightarrow> dataframe" where
  "concat_row df d =
     \<lparr>columns = columns df @ filter (\<lambda>c. c \<notin> set (columns df)) (map fst d),
      rows = map (\<lambda>r c. if c \<in> set (columns df) then r c else NaN) (rows df) @ [dict_row d]\<rparr>"

text \<open>
  \<open>df[df["Name"] == name].index[0]\<close>: the position of the first row with that name;
  \<open>KeyError\<close> without the column, \<open>IndexError\<close> when no row has the name.
\<close>

fun index_where :: "('a \<Rightarrow> bool) \<Rightarrow> 'a list \<Rightarrow> nat option" where
  "index_where p [] = None"
| "index_where p (x # xs) = (if p x then Some 0 else map_option Suc (index_where p xs))"

definition name_index :: "dataframe \<Rightarrow> string \<Rightarrow> py_error + nat" where
  "name_index df name =
     (if ''Name'' \<notin> set (columns df) then Inl (KeyError ''Name'')
      else case index_where (\<lambda>r. r ''Name'' = Str name) (rows df) of
        None \<Rightarrow> Inl IndexError
      | Some i \<Rightarrow> Inr i)"

text \<open>
  \<open>df.at[i, c] = v\<close> for a row \<open>i\<close> of the frame: the one cell is overwritten; when
  the column does not exist yet, pandas adds it, NaN in every other row.
\<close>

definition set_at :: "dataframe \<Rightarrow> nat \<Rightarrow> string \<Rightarrow> cell \<Rightarrow> dataframe" where
  "set_at df i c v =
     (if c \<in> set (columns df) then
        df\<lparr>rows := (rows df)[i := ((rows df) ! i)(c := v)]\<rparr>
      else
        df\<lparr>columns := columns df @ [c],
           rows := (map (\<lambda>r. r(c := NaN)) (rows df))[i := ((rows df) ! i)(c := v)]\<rparr>)"

text \<open>\<open>str(e)\<close> of the two exceptions.\<close>

fun str_error :: "py_error \<Rightarrow> string" where
  "str_error (KeyError c) = [CHR 0x27] @ c @ [CHR 0x27]"
| "str_error IndexError = ''index 0 is out of bounds for axis 0 with size 0''"

subsection \<open>Operations\<close>

text \<open>
  Each operation ends with \<open>update_members_sheet_optimized\<close> (lines 80-93), which
  overwrites the sheet with the frame and returns whether that worked; the outcome of the
  write is the parameter \<open>sheet_ok\<close>. The third component of a result is the frame held
  by \<open>members_df\<close> when the operation returns: the frame handed to the sheet write when
  one was made.
\<close>

type_synonym op_result = "bool \<times> string \<times> dataframe"

text \<open>
  \<open>register_user\<close> (lines 256-300); \<open>now\<close> is the formatted time of the call. The
  parameter \<open>approver\<close> of the source is never read.
\<close>

definition new_user :: "string \<Rightarrow> string \<Rightarrow> string \<Rightarrow> dataframe \<Rightarrow> string \<Rightarrow> (string \<times> cell) list" where
  "new_user name password role members_df now =
     (let hashed_pw = hash_password password;
          (initial_status, approved_by) =
            (if role = ''Dev'' then
               (if df_empty members_df then (''Active'', ''System'') else (''Pending'', []))
             else (''Pending'', []))
      in [(''Name'', Str name), (''Role'', Str role), (''Password'', Str hashed_pw),
          (''Status'', Str initial_status), (''ApprovedBy'', Str approved_by),
          (''CreatedAt'', Str now)])"

definition register_saved :: "string \<Rightarrow> dataframe \<Rightarrow> bool \<Rightarrow> op_result" where
  "register_saved role members_df sheet_ok =
     (if sheet_ok then
        (if role = ''Dev'' then
           (if df_empty members_df then
              (True, ''Dev registration successful! You can now log in.'', members_df)
            else
              (True, ''Dev registration submitted! Awaiting approval by the parent Dev.'',
               members_df))
         else
           (True, ''Registration successful! Your account is pending approval by a Dev.'',
            members_df))
      else (False, ''Error saving user.'', members_df))"

definition register_user ::
  "string \<Rightarrow> string \<Rightarrow> string \<Rightarrow> dataframe \<Rightarrow> string \<Rightarrow> bool \<Rightarrow> py_error + op_result" where
  "register_user name password role members_df now sheet_ok =
     (let user = new_user name password role members_df now
      in if df_empty members_df then
           Inr (register_saved role (single_row_frame user) sheet_ok)
         else if ''Name'' \<notin> set (columns members_df) then Inl (KeyError ''Name'')
         else if list_ex (\<lambda>r. r ''Name'' = Str name) (rows members_df) then
           Inr (False, ''User already exists.'', members_df)
         else Inr (register_saved role (concat_row members_df user) sheet_ok))"

text \<open>\<open>approve_user\<close> (lines 302-326).\<close>

definition approve_saved :: "string \<Rightarrow> dataframe \<Rightarrow> bool \<Rightarrow> op_result" where
  "approve_saved user_name members_df sheet_ok =
     (if sheet_ok then (True, ''User '' @ user_name @ '' approved successfully!'', members_df)
      else (False, ''Error updating user status.'', members_df))"

definition approve_try :: "string \<Rightarrow> dataframe \<Rightarrow> string \<Rightarrow> bool \<Rightarrow> py_error + op_result" where
  "approve_try user_name members_df approver_name sheet_ok =
     (case name_index members_df user_name of
        Inl e \<Rightarrow> Inl e
      | Inr user_idx \<Rightarrow>
          if ''Role'' \<notin> set (columns members_df) then Inl (KeyError ''Role'')
          else let user_role = (rows members_df ! user_idx) ''Role'';
                   approved = set_at (set_at members_df user_idx ''Status'' (Str ''Active''))
                                user_idx ''ApprovedBy'' (Str approver_name)
          in if user_role = Str ''Dev'' then
               (if ''ApprovedBy'' \<notin> set (columns members_df) then Inl (KeyError ''ApprovedBy'')
                else case filter (\<lambda>r. r ''Role'' = Str ''Dev'' \<and> r ''ApprovedBy'' = Str ''System'')
                            (rows members_df) of
                  [] \<Rightarrow> Inr (False, ''Only the parent Dev can approve new Devs.'', members_df)
                | parent_dev_row # _ \<Rightarrow>
                    if Str approver_name = parent_dev_row ''Name'' then
                      Inr (approve_saved user_name approved sheet_ok)
                    else Inr (False, ''Only the parent Dev can approve new Devs.'', members_df))
             else Inr (approve_saved user_name approved sheet_ok))"

definition approve_user :: "string \<Rightarrow> dataframe \<Rightarrow> string \<Rightarrow> bool \<Rightarrow> op_result" where
  "approve_user user_name members_df approver_name sheet_ok =
     (case approve_try user_name members_df approver_name sheet_ok of
        Inl e \<Rightarrow> (False, ''Error approving user: '' @ str_error e, members_df)
      | Inr res \<Rightarrow> res)"

text \<open>\<open>suspend_user\<close> (lines 328-339).\<close>

definition suspend_user :: "string \<Rightarrow> dataframe \<Rightarrow> bool \<Rightarrow> op_result" where
  "suspend_user user_name members_df sheet_ok =
     (case name_index members_df user_name of
        Inl e \<Rightarrow> (False, ''Error suspending user: '' @ str_error e, members_df)
      | Inr user_idx \<Rightarrow>
          let members_df = set_at members_df user_idx ''Status'' (Str ''Suspended'')
          in if sheet_ok then
               (True, ''User '' @ user_name @ '' suspended successfully!'', members_df)
             else (False, ''Error suspending user.'', members_df))"

text \<open>\<open>reactivate_user\<close> (lines 341-352).\<close>

definition reactivate_user :: "string \<Rightarrow> dataframe \<Rightarrow> bool \<Rightarrow> op_result" where
  "reactivate_user user_name members_df sheet_ok =
     (case name_index members_df user_name of
        Inl e \<Rightarrow> (False, ''Error reactivating user: '' @ str_error e, members_df)
      | Inr user_idx \<Rightarrow>
          let members_df = set_at members_df user_idx ''Status'' (Str ''Active'')
          in if sheet_ok then
               (True, ''User '' @ user_name @ '' reactivated successfully!'', members_df)
             else (False, ''Error reactivating user.'', members_df))"

text \<open>
  \<open>delete_user\<close> (lines 354-364): the rows whose name differs are kept (a NaN or
  numeric name differs from every text).
\<close>

definition delete_user :: "string \<Rightarrow> dataframe \<Rightarrow> bool \<Rightarrow> op_result" where
  "delete_user user_name members_df sheet_ok =
     (if ''Name'' \<notin> set (columns members_df) then
        (False, ''Error deleting user: '' @ str_error (KeyError ''Name''), members_df)
      else
        let members_df = members_df\<lparr>rows := filter (\<lambda>r. r ''Name'' \<noteq> Str user_name)
                                               (rows members_df)\<rparr>
        in if sheet_ok then
             (True, ''User '' @ user_name @ '' deleted successfully!'', members_df)
           else (False, ''Error deleting user.'', members_df))"

text \<open>\<open>update_user_role\<close> (lines 366-377).\<close>

definition update_user_role :: "string \<Rightarrow> string \<Rightarrow> dataframe \<Rightarrow> bool \<Rightarrow> op_result" where
  "update_user_role user_name new_role members_df sheet_ok =
     (case name_index members_df user_name of
        Inl e \<Rightarrow> (False, ''Error updating user role: '' @ str_error e, members_df)
      | Inr user_idx \<Rightarrow>
          let members_df = set_at members_df user_idx ''Role'' (Str new_role)
          in if sheet_ok then
               (True, ''User '' @ user_name @ [CHR 0x27] @ ''s role updated to '' @ new_role @ ''!'',
                members_df)
             else (False, ''Error updating user role.'', members_df))"

section \<open>Task service\<close>

text \<open>
  \<open>pd.to_numeric(..., errors="coerce")\<close> followed by \<open>dropna().astype(int)\<close>, cell by
  cell: an integer stays, NaN is dropped, and a text is read as a number by pandas' own
  parser, which is the parameter \<open>parse\<close> (\<open>None\<close> for a text that is no number).
\<close>

definition to_numeric :: "(string \<Rightarrow> int option) \<Rightarrow> cell \<Rightarrow> int option" where
  "to_numeric parse c = (case c of Num i \<Rightarrow> Some i | Str s \<Rightarrow> parse s | NaN \<Rightarrow> None)"

text \<open>The identifiers of line 383.\<close>

definition existing_ids :: "(string \<Rightarrow> int option) \<Rightarrow> dataframe \<Rightarrow> int list" where
  "existing_ids parse tasks_df =
     List.map_filter (to_numeric parse) (map (\<lambda>r. r ''TaskID'') (rows tasks_df))"

text \<open>
  The identifiers in use in a task table: those of its TaskID column, none when the table
  has no such column.
\<close>

definition task_ids :: "(string \<Rightarrow> int option) \<Rightarrow> dataframe \<Rightarrow> int list" where
  "task_ids parse tasks_df =
     (if ''TaskID'' \<in> set (columns tasks_df) then existing_ids parse tasks_df else [])"

text \<open>
  The successive results of \<open>random.randint(100000, 999999)\<close> are the sequence
  \<open>draws\<close>; a call reads it from position \<open>k\<close> on and returns the position after its
  last draw. The \<open>while True\<close> loop of lines 384-387 may run forever, which is the
  value \<open>None\<close>.
\<close>

partial_function (option) resample :: "int list \<Rightarrow> (nat \<Rightarrow> int) \<Rightarrow> nat \<Rightarrow> (int \<times> nat) option" where
  "resample existing draws k =
     (let new_id = draws k
      in if new_id \<notin> set existing then Some (new_id, Suc k)
         else resample existing draws (Suc k))"

text \<open>\<open>generate_unique_taskid\<close> (lines 379-387).\<close>

definition generate_unique_taskid ::
  "(string \<Rightarrow> int option) \<Rightarrow> dataframe \<Rightarrow> (nat \<Rightarrow> int) \<Rightarrow> nat \<Rightarrow> (int \<times> nat) option" where
  "generate_unique_taskid parse tasks_df draws k =
     (if df_empty tasks_df \<or> ''TaskID'' \<notin> set (columns tasks_df) then Some (draws k, Suc k)
      else resample (existing_ids parse tasks_df) draws k)"

text \<open>
  The caller of lines 930-946 puts the new identifier into a task row and appends the
  row to the task table.
\<close>

record task_form =
  task_name :: string
  assigned_to :: string
  user_role :: string
  deadline :: string
  priority :: string
  description :: string

definition new_task :: "int \<Rightarrow> task_form \<Rightarrow> (string \<times> cell) list" where
  "new_task task_id form =
     [(''TaskID'', Num task_id), (''TaskName'', Str (task_name form)),
      (''AssignedTo'', Str (assigned_to form)), (''Role'', Str (user_role form)),
      (''Status'', Str ''Pending''), (''Deadline'', Str (deadline form)),
      (''Priority'', Str (priority form)), (''Description'', Str (description form))]"

definition add_task :: "int \<Rightarrow> task_form \<Rightarrow> dataframe \<Rightarrow> dataframe" where
  "add_task task_id form tasks_df =
     (if df_empty tasks_df then single_row_frame (new_task task_id form)
      else concat_row tasks_df (new_task task_id form))"

text \<open>
  Repeated task creation: one call of \<open>generate_unique_taskid\<close> per form, each new
  identifier appended to the table before the next call. The result is the list of the
  identifiers handed out, the final table and the position reached in \<open>draws\<close>.
\<close>

fun assign_tasks ::
  "(string \<Rightarrow> int option) \<Rightarrow> task_form list \<Rightarrow> dataframe \<Rightarrow> (nat \<Rightarrow> int) \<Rightarrow> nat
     \<Rightarrow> (int list \<times> dataframe \<times> nat) option" where
  "assign_tasks parse [] tasks_df draws k = Some ([], tasks_df, k)"
| "assign_tasks parse (form # forms) tasks_df draws k =
     (case generate_unique_taskid parse tasks_df draws k of
        None \<Rightarrow> None
      | Some (task_id, k') \<Rightarrow>
          (case assign_tasks parse forms (add_task task_id form tasks_df) draws k' of
             None \<Rightarrow> None
           | Some (ids, tasks_df', k'') \<Rightarrow> Some (task_id # ids, tasks_df', k'')))"

section \<open>Example tables\<close>

text \<open>A directory that holds one active Dev.\<close>

definition dev_only_directory :: dataframe where
  "dev_only_directory =
     \<lparr>columns = [''Name'', ''Role'', ''Status''],
      rows = [dict_row [(''Name'', Str ''A''), (''Role'', Str ''Dev''),
                        (''Status'', Str ''Active'')]]\<rparr>"

text \<open>A directory with a Core Head, a Domain Head and a Junior Head, all active.\<close>

definition heads_directory :: dataframe where
  "heads_directory =
     \<lparr>columns = [''Name'', ''Role'', ''Status''],
      rows = [dict_row [(''Name'', Str ''C''), (''Role'', Str ''Core Head''),
                        (''Status'', Str ''Active'')],
              dict_row [(''Name'', Str ''D''), (''Role'', Str ''Domain Head''),
                        (''Status'', Str ''Active'')],
              dict_row [(''Name'', Str ''J''), (''Role'', Str ''Junior Head''),
                        (''Status'', Str ''Active'')]]\<rparr>"

text \<open>
  A directory with the six columns of the sheet (line 110): a suspended and a pending
  Dev, an active Core Head, an active member whose password is stored as plain text, and
  members that are pending, suspended or in some other state.
\<close>

definition expected_columns :: "string list" where
  "expected_columns = [''Name'', ''Role'', ''Password'', ''Status'', ''ApprovedBy'', ''CreatedAt'']"

definition member_row :: "string \<Rightarrow> string \<Rightarrow> string \<Rightarrow> string \<Rightarrow> string \<Rightarrow> row" where
  "member_row name role stored status approved_by =
     dict_row [(''Name'', Str name), (''Role'', Str role), (''Password'', Str stored),
               (''Status'', Str status), (''ApprovedBy'', Str approved_by),
               (''CreatedAt'', Str ''2024-01-01 00:00:00'')]"

definition login_directory :: dataframe where
  "login_directory =
     \<lparr>columns = expected_columns,
      rows = [member_row ''A'' ''Dev'' (hash_password ''pw'') ''Suspended'' ''System'',
              member_row ''B'' ''Core Head'' (hash_password ''pw'') ''Active'' ''A'',
              member_row ''E'' ''Dev'' (hash_password ''pw'') ''Pending'' [],
              member_row ''P'' ''Junior Head'' ''secret'' ''Active'' ''A'',
              member_row ''Q'' ''Junior Head'' (hash_password ''pw'') ''Pending'' [],
              member_row ''S'' ''Domain Head'' (hash_password ''pw'') ''Suspended'' ''A'',
              member_row ''X'' ''Domain Head'' (hash_password ''pw'') ''Archived'' ''A'']\<rparr>"

text \<open>A frame with the six columns and no row.\<close>

definition no_members :: dataframe where
  "no_members = \<lparr>columns = expected_columns, rows = []\<rparr>"

text \<open>A directory whose only member is a pending Core Head: no Dev has registered yet.\<close>

definition pending_head_directory :: dataframe where
  "pending_head_directory =
     \<lparr>columns = expected_columns,
      rows = [member_row ''B'' ''Core Head'' (hash_password ''pw'') ''Pending'' []]\<rparr>"

text \<open>
  That directory after the registration of its first Dev: the frame that
  \<open>register_user\<close> hands to the sheet write.
\<close>

definition first_dev_directory :: dataframe where
  "first_dev_directory =
     concat_row pending_head_directory
       (new_user ''A'' ''pw'' ''Dev'' pending_head_directory ''2024-01-02 00:00:00'')"

text \<open>
  A directory with the bootstrap Dev, a second Dev and a Junior Head, both waiting for
  approval.
\<close>

definition approval_directory :: dataframe where
  "approval_directory =
     \<lparr>columns = expected_columns,
      rows = [member_row ''A'' ''Dev'' (hash_password ''pw'') ''Active'' ''System'',
              member_row ''E'' ''Dev'' (hash_password ''pw'') ''Pending'' [],
              member_row ''Q'' ''Junior Head'' (hash_password ''pw'') ''Pending'' []]\<rparr>"

text \<open>
  A task table with one task, whose identifier is 100000, and a sequence of draws that
  runs through the range again and again.
\<close>

definition example_form :: task_form where
  "example_form =
     \<lparr>task_name = ''Poster'', assigned_to = ''D'', user_role = ''Core Head'',
      deadline = ''2024-02-01'', priority = ''High'', description = ''Print the poster''\<rparr>"

definition one_task_table :: dataframe where
  "one_task_table = single_row_frame (new_task 100000 example_form)"

definition cyclic_draws :: "nat \<Rightarrow> int" where
  "cyclic_draws j = 100000 + int (j mod 900000)"

section \<open>Properties of the password codec\<close>

text \<open>A digest is 8 words, printed as 64 characters, each a lower-case hexadecimal digit.\<close>

lemma length_hex32: "length (hex32 w) = 8"
  by (simp add: hex32_def)

lemma length_sha256: "length (sha256 m) = 8"
  by (simp add: sha256_def split: prod.splits)

lemma length_hexdigest: "length (hexdigest ws) = 8 * length ws"
  by (induction ws) (simp_all add: hexdigest_def length_hex32)

lemma length_hash_password: "length (hash_password p) = 64"
  by (simp add: hash_password_def length_hexdigest length_sha256)

lemma nibble_nth_mem:
  assumes "length ds = 16"
  shows "ds ! unat (x AND (15 :: 32 word)) \<in> set ds"
proof -
  have "x AND 15 \<le> 15" by (rule word_and_le1)
  then have "unat (x AND 15) \<le> 15" by (simp add: word_le_nat_alt)
  with assms have "unat (x AND 15) < length ds" by simp
  then show ?thesis by (rule nth_mem)
qed

lemma nibbles_mem:
  assumes "length ds = 16"
    and "c \<in> set (map (\<lambda>i. ds ! unat (drop_bit (4 * (7 - i)) w AND (15 :: 32 word))) [0..<8])"
  shows "c \<in> set ds"
proof -
  from assms(2) obtain i where "c = ds ! unat (drop_bit (4 * (7 - i)) w AND 15)"
    by (auto simp del: upt.simps)
  with nibble_nth_mem [OF assms(1)] show ?thesis by simp
qed

lemma set_hex32:
  assumes "c \<in> set (hex32 w)"
  shows "c \<in> set ''0123456789abcdef''"
proof -
  have l: "length ''0123456789abcdef'' = 16" by simp
  from assms show ?thesis unfolding hex32_def by (rule nibbles_mem [OF l])
qed

lemma set_hexdigest: "c \<in> set (hexdigest ws) \<Longrightarrow> c \<in> set ''0123456789abcdef''"
proof -
  assume "c \<in> set (hexdigest ws)"
  then obtain w where "c \<in> set (hex32 w)" unfolding hexdigest_def by auto
  then show ?thesis by (rule set_hex32)
qed

lemma set_hash_password: "c \<in> set (hash_password p) \<Longrightarrow> c \<in> set ''0123456789abcdef''"
  unfolding hash_password_def by (rule set_hexdigest)

text \<open>Lower-casing: the characters by their codes.\<close>

lemma hex_lower_nat:
  "c \<in> set ''0123456789abcdef'' \<longleftrightarrow>
     (48 \<le> (of_char c :: nat) \<and> (of_char c :: nat) \<le> 57)
     \<or> (97 \<le> (of_char c :: nat) \<and> (of_char c :: nat) \<le> 102)"
  by (cases c) auto

lemma hex_any_nat:
  "c \<in> set ''0123456789abcdefABCDEF'' \<longleftrightarrow>
     (48 \<le> (of_char c :: nat) \<and> (of_char c :: nat) \<le> 57)
     \<or> (97 \<le> (of_char c :: nat) \<and> (of_char c :: nat) \<le> 102)
     \<or> (65 \<le> (of_char c :: nat) \<and> (of_char c :: nat) \<le> 70)"
  by (cases c) auto

lemma of_char_lower_char:
  "(of_char (lower_char c) :: nat) =
     (if (65 \<le> (of_char c :: nat) \<and> (of_char c :: nat) \<le> 90)
         \<or> (192 \<le> (of_char c :: nat) \<and> (of_char c :: nat) \<le> 222
             \<and> (of_char c :: nat) \<noteq> 215)
      then of_char c + 32 else of_char c)"
  by (simp add: lower_char_def Let_def)

lemma lower_char_hex_iff:
  "lower_char c \<in> set ''0123456789abcdef'' \<longleftrightarrow> c \<in> set ''0123456789abcdefABCDEF''"
  unfolding hex_lower_nat hex_any_nat of_char_lower_char by auto

lemma list_all_lower: "list_all (\<lambda>c. c \<in> A) (lower s) \<longleftrightarrow> (\<forall>c \<in> set s. lower_char c \<in> A)"
  by (simp add: lower_def list_all_iff)

text \<open>
  The test of line 242 accepts exactly the texts of 64 hexadecimal digits, capitals
  included.
\<close>

lemma looks_like_hash_iff:
  "looks_like_hash s \<longleftrightarrow>
     length s = 64 \<and> (\<forall>c \<in> set s. c \<in> set ''0123456789abcdefABCDEF'')"
  unfolding looks_like_hash_def list_all_lower lower_char_hex_iff by (rule refl)

lemma lower_char_hex: "c \<in> set ''0123456789abcdef'' \<Longrightarrow> lower_char c = c"
  by (auto simp: lower_char_def)

lemma looks_like_hash_hash_password: "looks_like_hash (hash_password p)"
proof -
  have "\<forall>c \<in> set (hash_password p). lower_char c \<in> set ''0123456789abcdef''"
  proof
    fix c assume c: "c \<in> set (hash_password p)"
    then have h: "c \<in> set ''0123456789abcdef''" by (rule set_hash_password)
    from lower_char_hex [OF h] h show "lower_char c \<in> set ''0123456789abcdef''"
      by (simp only:)
  qed
  then show ?thesis
    unfolding looks_like_hash_def list_all_lower using length_hash_password by blast
qed

section \<open>Properties of the role hierarchy resolver\<close>

lemma active_names_sound:
  "active_names p df = Inr names \<Longrightarrow> c \<in> set names \<Longrightarrow>
     \<exists>r \<in> set (rows df). r ''Name'' = c \<and> r ''Status'' = Str ''Active'' \<and> p r"
  by (auto simp: active_names_def split: if_splits)

lemma find_filter: "find P xs = Some r \<Longrightarrow> \<exists>rest. filter P xs = r # rest"
  by (induction xs) (auto split: if_splits)

lemma filter_Cons_mem: "filter P xs = q # qs \<Longrightarrow> q \<in> set xs \<and> P q"
proof -
  assume "filter P xs = q # qs"
  then have "q \<in> set (filter P xs)" by simp
  then show ?thesis by simp
qed

text \<open>
  Every returned name belongs to an active row, and the pair of the requester's role and
  the returned member's role is one of the pairs of the hierarchy.
\<close>

lemma get_subordinates_try_cases:
  assumes "get_subordinates_try n df = Inr names" "c \<in> set names"
  shows "\<exists>q r. q \<in> set (rows df) \<and> q ''Name'' = Str n \<and> r \<in> set (rows df)
     \<and> r ''Name'' = c \<and> r ''Status'' = Str ''Active''
     \<and> (q ''Role'' = Str ''Dev''
         \<or> q ''Role'' = Str ''Core Head''
             \<and> (r ''Role'' = Str ''Domain Head'' \<or> r ''Role'' = Str ''Core Head'')
         \<or> q ''Role'' = Str ''Domain Head'' \<and> r ''Role'' = Str ''Associate Head''
         \<or> q ''Role'' = Str ''Associate Head'' \<and> r ''Role'' = Str ''Junior Head'')"
proof -
  from assms obtain q qs where f: "filter (\<lambda>r. r ''Name'' = Str n) (rows df) = q # qs"
    by (auto simp: get_subordinates_try_def split: if_splits list.splits)
  then have q: "q \<in> set (rows df)" "q ''Name'' = Str n"
    using filter_Cons_mem [OF f] by auto
  from assms f show ?thesis using q
    by (auto simp: get_subordinates_try_def Let_def split: if_splits dest!: active_names_sound)
qed

lemma get_subordinates_cases:
  assumes "c \<in> set (get_subordinates n df)"
  shows "\<exists>q r. q \<in> set (rows df) \<and> q ''Name'' = Str n \<and> r \<in> set (rows df)
     \<and> r ''Name'' = c \<and> r ''Status'' = Str ''Active''
     \<and> (q ''Role'' = Str ''Dev''
         \<or> q ''Role'' = Str ''Core Head''
             \<and> (r ''Role'' = Str ''Domain Head'' \<or> r ''Role'' = Str ''Core Head'')
         \<or> q ''Role'' = Str ''Domain Head'' \<and> r ''Role'' = Str ''Associate Head''
         \<or> q ''Role'' = Str ''Associate Head'' \<and> r ''Role'' = Str ''Junior Head'')"
proof (cases "get_subordinates_try n df")
  case (Inl e)
  with assms show ?thesis by (simp add: get_subordinates_def split: if_splits)
next
  case (Inr names)
  with assms have "c \<in> set names" by (simp add: get_subordinates_def split: if_splits)
  with Inr show ?thesis by (rule get_subordinates_try_cases)
qed

lemma distinct_names_same_row:
  "distinct (map (\<lambda>r. r ''Name'') xs) \<Longrightarrow> q \<in> set xs \<Longrightarrow> r \<in> set xs
     \<Longrightarrow> q ''Name'' = r ''Name'' \<Longrightarrow> q = r"
  by (meson distinct_map inj_onD)

text \<open>
  Claim C1, as amended. Every name that \<open>get_subordinates\<close> returns is the name of a
  row whose Status is Active. In a directory whose names are unique, the requester's own
  name is returned only if the requester is active and has the role Dev or Core Head:
  a Dev sees every active member, itself included, and a Core Head sees the active Core
  Heads.
\<close>

theorem get_subordinates_active_self:
  "(\<forall>c \<in> set (get_subordinates n df).
      \<exists>r \<in> set (rows df). r ''Name'' = c \<and> r ''Status'' = Str ''Active'')
   \<and> (distinct (map (\<lambda>r. r ''Name'') (rows df)) \<and> Str n \<in> set (get_subordinates n df) \<longrightarrow>
        (\<exists>r \<in> set (rows df). r ''Name'' = Str n \<and> r ''Status'' = Str ''Active''
            \<and> (r ''Role'' = Str ''Dev'' \<or> r ''Role'' = Str ''Core Head'')))"
proof (intro conjI ballI impI)
  fix c assume "c \<in> set (get_subordinates n df)"
  from get_subordinates_cases [OF this]
  show "\<exists>r \<in> set (rows df). r ''Name'' = c \<and> r ''Status'' = Str ''Active''" by blast
next
  assume a: "distinct (map (\<lambda>r. r ''Name'') (rows df)) \<and> Str n \<in> set (get_subordinates n df)"
  then obtain q r where qr: "q \<in> set (rows df)" "q ''Name'' = Str n" "r \<in> set (rows df)"
    "r ''Name'' = Str n" "r ''Status'' = Str ''Active''"
    "q ''Role'' = Str ''Dev''
       \<or> q ''Role'' = Str ''Core Head''
           \<and> (r ''Role'' = Str ''Domain Head'' \<or> r ''Role'' = Str ''Core Head'')
       \<or> q ''Role'' = Str ''Domain Head'' \<and> r ''Role'' = Str ''Associate Head''
       \<or> q ''Role'' = Str ''Associate Head'' \<and> r ''Role'' = Str ''Junior Head''"
    using get_subordinates_cases [of "Str n" n df] by blast
  have "q = r" using distinct_names_same_row a qr by metis
  with qr show "\<exists>r \<in> set (rows df). r ''Name'' = Str n \<and> r ''Status'' = Str ''Active''
            \<and> (r ''Role'' = Str ''Dev'' \<or> r ''Role'' = Str ''Core Head'')"
    by auto
qed

text \<open>The Core Head of the example directory is returned to itself.\<close>

theorem get_subordinates_active_self_witness:
  "Str ''C'' \<in> set (get_subordinates ''C'' heads_directory)
   \<and> distinct (map (\<lambda>r. r ''Name'') (rows heads_directory))
   \<and> (\<exists>r \<in> set (rows heads_directory). r ''Name'' = Str ''C'' \<and> r ''Status'' = Str ''Active''
            \<and> (r ''Role'' = Str ''Dev'' \<or> r ''Role'' = Str ''Core Head''))"
proof -
  have m: "Str ''C'' \<in> set (get_subordinates ''C'' heads_directory)"
    by (simp add: heads_directory_def get_subordinates_def get_subordinates_try_def
        active_names_def df_empty_def dict_row_def)
  have d: "distinct (map (\<lambda>r. r ''Name'') (rows heads_directory))"
    by (simp add: heads_directory_def dict_row_def)
  from get_subordinates_active_self [of "''C''" heads_directory] m d show ?thesis by blast
qed

text \<open>
  Claim C1 as it is written fails for a Dev: the only member of the directory is an
  active Dev, not a Core Head, and it is returned as its own subordinate.
\<close>

theorem get_subordinates_dev_self_counterexample:
  "get_subordinates ''A'' dev_only_directory = [Str ''A'']
   \<and> hd (rows dev_only_directory) ''Role'' = Str ''Dev''"
  by (simp add: dev_only_directory_def get_subordinates_def get_subordinates_try_def
      active_names_def df_empty_def dict_row_def)

text \<open>
  Claim C8. \<open>get_subordinates\<close> has a result on every frame (every exception of its
  body is caught, so its result carries no error): the empty list for an empty frame, for
  a name that no row has, and for a requester whose role is Junior Head (the role is read
  from the first row with the requester's name).
\<close>

theorem get_subordinates_total:
  "(df_empty df \<longrightarrow> get_subordinates n df = [])
   \<and> ((\<forall>r \<in> set (rows df). r ''Name'' \<noteq> Str n) \<longrightarrow> get_subordinates n df = [])
   \<and> (\<forall>r. find (\<lambda>r. r ''Name'' = Str n) (rows df) = Some r \<and> r ''Role'' = Str ''Junior Head''
         \<longrightarrow> get_subordinates n df = [])"
proof (intro conjI impI allI)
  assume "df_empty df" then show "get_subordinates n df = []"
    by (simp add: get_subordinates_def)
next
  assume "\<forall>r \<in> set (rows df). r ''Name'' \<noteq> Str n"
  then have "filter (\<lambda>r. r ''Name'' = Str n) (rows df) = []" by (simp add: filter_empty_conv)
  then show "get_subordinates n df = []"
    by (simp add: get_subordinates_def get_subordinates_try_def)
next
  fix r
  assume "find (\<lambda>r. r ''Name'' = Str n) (rows df) = Some r \<and> r ''Role'' = Str ''Junior Head''"
  then obtain rest where "filter (\<lambda>r. r ''Name'' = Str n) (rows df) = r # rest"
    "r ''Role'' = Str ''Junior Head''"
    using find_filter by metis
  then show "get_subordinates n df = []"
    by (simp add: get_subordinates_def get_subordinates_try_def)
qed

text \<open>A Junior Head, an unknown name and a frame without rows.\<close>

theorem get_subordinates_total_witness:
  "get_subordinates ''J'' heads_directory = [] \<and> get_subordinates ''Z'' heads_directory = []
   \<and> get_subordinates ''J'' \<lparr>columns = [''Name''], rows = []\<rparr> = []"
proof -
  have 1: "find (\<lambda>r. r ''Name'' = Str ''J'') (rows heads_directory)
             = Some (rows heads_directory ! 2)
      \<and> (rows heads_directory ! 2) ''Role'' = Str ''Junior Head''"
    by (simp add: heads_directory_def dict_row_def)
  have 2: "\<forall>r \<in> set (rows heads_directory). r ''Name'' \<noteq> Str ''Z''"
    by (simp add: heads_directory_def dict_row_def)
  have 3: "df_empty \<lparr>columns = [''Name''], rows = []\<rparr>" by (simp add: df_empty_def)
  show ?thesis
    using get_subordinates_total [of "\<lparr>columns = [''Name''], rows = []\<rparr>" "''J''"]
      get_subordinates_total [of heads_directory "''Z''"]
      get_subordinates_total [of heads_directory "''J''"] 1 2 3 by blast
qed

section \<open>Properties of the authentication service\<close>

text \<open>The function on a frame that has rows and a Name column, for the first row found.\<close>

lemma authenticate_user_found:
  assumes "\<not> df_empty df" and "''Name'' \<in> set (columns df)"
    and "find (\<lambda>r. r ''Name'' = Str u) (rows df) = Some r"
  shows "authenticate_user u pw df =
     (let user_status = (if ''Status'' \<in> set (columns df) then r ''Status'' else Str ''Active'');
          user_role = (if ''Role'' \<in> set (columns df) then r ''Role'' else Str [])
      in if user_role \<noteq> Str ''Dev'' \<and> user_status \<noteq> Str ''Active'' then
           (if user_status = Str ''Pending'' then
              Inr (False, None, None, ''Account pending approval'')
            else if user_status = Str ''Suspended'' then
              Inr (False, None, None, ''Account suspended'')
            else Inr (False, None, None, ''Account inactive''))
         else if credentials_match pw r df then
           Inr (True, Some u, Some user_role, ''Success'')
         else Inr (False, None, None, ''Invalid credentials''))"
proof -
  from find_filter [OF assms(3)] obtain rest
    where "filter (\<lambda>r. r ''Name'' = Str u) (rows df) = r # rest" ..
  with assms(1,2) show ?thesis by (simp add: authenticate_user_def)
qed

lemma authenticate_user_unknown:
  assumes "\<not> df_empty df" and "''Name'' \<in> set (columns df)"
    and "\<forall>r \<in> set (rows df). r ''Name'' \<noteq> Str u"
  shows "authenticate_user u pw df = Inr (False, None, None, ''User not found'')"
proof -
  from assms(3) have "filter (\<lambda>r. r ''Name'' = Str u) (rows df) = []"
    by (simp add: filter_empty_conv)
  with assms(1,2) show ?thesis by (simp add: authenticate_user_def)
qed

lemma member_row_cells:
  "member_row n role stored status by ''Name'' = Str n"
  "member_row n role stored status by ''Role'' = Str role"
  "member_row n role stored status by ''Password'' = Str stored"
  "member_row n role stored status by ''Status'' = Str status"
  "member_row n role stored status by ''ApprovedBy'' = Str by"
  by (simp_all add: member_row_def dict_row_def)

lemma login_directory_frame:
  "\<not> df_empty login_directory" "''Name'' \<in> set (columns login_directory)"
  "''Role'' \<in> set (columns login_directory)" "''Status'' \<in> set (columns login_directory)"
  "''Password'' \<in> set (columns login_directory)"
  by (simp_all add: login_directory_def df_empty_def expected_columns_def)

text \<open>
  Claim C2. \<open>authenticate_user\<close> applies its policy in order: an empty frame gives
  ``No users found''; a name that no row has gives ``User not found''; a member whose role
  is not Dev and whose Status is not Active is refused with the message of that Status
  (pending, suspended, or inactive for any other value); for a member whose role is Dev
  the outcome is that of the password comparison alone, whatever the Status.
\<close>

theorem authenticate_policy_order:
  "(df_empty df \<longrightarrow> authenticate_user u pw df = Inr (False, None, None, ''No users found''))
   \<and> (\<not> df_empty df \<and> ''Name'' \<in> set (columns df) \<and> (\<forall>r \<in> set (rows df). r ''Name'' \<noteq> Str u)
        \<longrightarrow> authenticate_user u pw df = Inr (False, None, None, ''User not found''))
   \<and> (\<forall>r. \<not> df_empty df \<and> ''Name'' \<in> set (columns df)
          \<and> find (\<lambda>r. r ''Name'' = Str u) (rows df) = Some r
          \<and> (''Role'' \<in> set (columns df) \<longrightarrow> r ''Role'' \<noteq> Str ''Dev'')
          \<and> ''Status'' \<in> set (columns df) \<and> r ''Status'' \<noteq> Str ''Active''
        \<longrightarrow> authenticate_user u pw df =
              Inr (False, None, None,
                   if r ''Status'' = Str ''Pending'' then ''Account pending approval''
                   else if r ''Status'' = Str ''Suspended'' then ''Account suspended''
                   else ''Account inactive''))
   \<and> (\<forall>r. \<not> df_empty df \<and> ''Name'' \<in> set (columns df)
          \<and> find (\<lambda>r. r ''Name'' = Str u) (rows df) = Some r
          \<and> ''Role'' \<in> set (columns df) \<and> r ''Role'' = Str ''Dev''
        \<longrightarrow> authenticate_user u pw df =
              (if credentials_match pw r df
               then Inr (True, Some u, Some (Str ''Dev''), ''Success'')
               else Inr (False, None, None, ''Invalid credentials'')))"
proof (intro conjI impI allI)
  assume "df_empty df"
  then show "authenticate_user u pw df = Inr (False, None, None, ''No users found'')"
    by (simp add: authenticate_user_def)
next
  assume "\<not> df_empty df \<and> ''Name'' \<in> set (columns df) \<and> (\<forall>r \<in> set (rows df). r ''Name'' \<noteq> Str u)"
  then show "authenticate_user u pw df = Inr (False, None, None, ''User not found'')"
    using authenticate_user_unknown by blast
next
  fix r
  assume a: "\<not> df_empty df \<and> ''Name'' \<in> set (columns df)
          \<and> find (\<lambda>r. r ''Name'' = Str u) (rows df) = Some r
          \<and> (''Role'' \<in> set (columns df) \<longrightarrow> r ''Role'' \<noteq> Str ''Dev'')
          \<and> ''Status'' \<in> set (columns df) \<and> r ''Status'' \<noteq> Str ''Active''"
  then have "authenticate_user u pw df =
     (let user_status = (if ''Status'' \<in> set (columns df) then r ''Status'' else Str ''Active'');
          user_role = (if ''Role'' \<in> set (columns df) then r ''Role'' else Str [])
      in if user_role \<noteq> Str ''Dev'' \<and> user_status \<noteq> Str ''Active'' then
           (if user_status = Str ''Pending'' then
              Inr (False, None, None, ''Account pending approval'')
            else if user_status = Str ''Suspended'' then
              Inr (False, None, None, ''Account suspended'')
            else Inr (False, None, None, ''Account inactive''))
         else if credentials_match pw r df then
           Inr (True, Some u, Some user_role, ''Success'')
         else Inr (False, None, None, ''Invalid credentials''))"
    by (intro authenticate_user_found) simp_all
  with a show "authenticate_user u pw df =
              Inr (False, None, None,
                   if r ''Status'' = Str ''Pending'' then ''Account pending approval''
                   else if r ''Status'' = Str ''Suspended'' then ''Account suspended''
                   else ''Account inactive'')"
    by (simp add: Let_def)
next
  fix r
  assume a: "\<not> df_empty df \<and> ''Name'' \<in> set (columns df)
          \<and> find (\<lambda>r. r ''Name'' = Str u) (rows df) = Some r
          \<and> ''Role'' \<in> set (columns df) \<and> r ''Role'' = Str ''Dev''"
  then have "authenticate_user u pw df =
     (let user_status = (if ''Status'' \<in> set (columns df) then r ''Status'' else Str ''Active'');
          user_role = (if ''Role'' \<in> set (columns df) then r ''Role'' else Str [])
      in if user_role \<noteq> Str ''Dev'' \<and> user_status \<noteq> Str ''Active'' then
           (if user_status = Str ''Pending'' then
              Inr (False, None, None, ''Account pending approval'')
            else if user_status = Str ''Suspended'' then
              Inr (False, None, None, ''Account suspended'')
            else Inr (False, None, None, ''Account inactive''))
         else if credentials_match pw r df then
           Inr (True, Some u, Some user_role, ''Success'')
         else Inr (False, None, None, ''Invalid credentials''))"
    by (intro authenticate_user_found) simp_all
  with a show "authenticate_user u pw df =
              (if credentials_match pw r df
               then Inr (True, Some u, Some (Str ''Dev''), ''Success'')
               else Inr (False, None, None, ''Invalid credentials''))"
    by (simp add: Let_def)
qed

lemma credentials_match_hashed:
  "''Password'' \<in> set (columns df) \<Longrightarrow>
     credentials_match pw (member_row n role (hash_password pw) status by) df"
  by (simp add: credentials_match_def member_row_cells looks_like_hash_hash_password)

text \<open>
  The empty frame, an unknown name, a pending, a suspended and an archived member, and a
  pending Dev with the right password.
\<close>

theorem authenticate_policy_order_witness:
  "authenticate_user ''A'' ''pw'' no_members = Inr (False, None, None, ''No users found'')
   \<and> authenticate_user ''Z'' ''pw'' login_directory = Inr (False, None, None, ''User not found'')
   \<and> authenticate_user ''Q'' ''pw'' login_directory
       = Inr (False, None, None, ''Account pending approval'')
   \<and> authenticate_user ''S'' ''pw'' login_directory = Inr (False, None, None, ''Account suspended'')
   \<and> authenticate_user ''X'' ''pw'' login_directory = Inr (False, None, None, ''Account inactive'')
   \<and> authenticate_user ''E'' ''pw'' login_directory
       = Inr (True, Some ''E'', Some (Str ''Dev''), ''Success'')"
proof -
  have e: "df_empty no_members" by (simp add: no_members_def df_empty_def)
  have z: "\<forall>r \<in> set (rows login_directory). r ''Name'' \<noteq> Str ''Z''"
    by (simp add: login_directory_def member_row_cells)
  have q: "find (\<lambda>r. r ''Name'' = Str ''Q'') (rows login_directory)
             = Some (member_row ''Q'' ''Junior Head'' (hash_password ''pw'') ''Pending'' [])"
    by (simp add: login_directory_def member_row_cells)
  have s: "find (\<lambda>r. r ''Name'' = Str ''S'') (rows login_directory)
             = Some (member_row ''S'' ''Domain Head'' (hash_password ''pw'') ''Suspended'' ''A'')"
    by (simp add: login_directory_def member_row_cells)
  have x: "find (\<lambda>r. r ''Name'' = Str ''X'') (rows login_directory)
             = Some (member_row ''X'' ''Domain Head'' (hash_password ''pw'') ''Archived'' ''A'')"
    by (simp add: login_directory_def member_row_cells)
  have d: "find (\<lambda>r. r ''Name'' = Str ''E'') (rows login_directory)
             = Some (member_row ''E'' ''Dev'' (hash_password ''pw'') ''Pending'' [])"
    by (simp add: login_directory_def member_row_cells)
  have m: "credentials_match ''pw'' (member_row ''E'' ''Dev'' (hash_password ''pw'') ''Pending'' [])
             login_directory"
    by (rule credentials_match_hashed) (rule login_directory_frame)
  have 1: "authenticate_user ''A'' ''pw'' no_members = Inr (False, None, None, ''No users found'')"
    using authenticate_policy_order [where df = no_members and u = "''A''" and pw = "''pw''"] e
    by blast
  have 2: "authenticate_user ''Z'' ''pw'' login_directory
             = Inr (False, None, None, ''User not found'')"
    using authenticate_policy_order [where df = login_directory and u = "''Z''" and pw = "''pw''"]
      z login_directory_frame by blast
  have 3: "authenticate_user ''Q'' ''pw'' login_directory
             = Inr (False, None, None, ''Account pending approval'')"
    using authenticate_policy_order [where df = login_directory and u = "''Q''" and pw = "''pw''"]
      q login_directory_frame by (simp add: member_row_cells)
  have 4: "authenticate_user ''S'' ''pw'' login_directory
             = Inr (False, None, None, ''Account suspended'')"
    using authenticate_policy_order [where df = login_directory and u = "''S''" and pw = "''pw''"]
      s login_directory_frame by (simp add: member_row_cells)
  have 5: "authenticate_user ''X'' ''pw'' login_directory
             = Inr (False, None, None, ''Account inactive'')"
    using authenticate_policy_order [where df = login_directory and u = "''X''" and pw = "''pw''"]
      x login_directory_frame by (simp add: member_row_cells)
  have 6: "authenticate_user ''E'' ''pw'' login_directory
             = Inr (True, Some ''E'', Some (Str ''Dev''), ''Success'')"
    using authenticate_policy_order [where df = login_directory and u = "''E''" and pw = "''pw''"]
      d m login_directory_frame by (simp add: member_row_cells)
  from 1 2 3 4 5 6 show ?thesis by blast
qed

text \<open>
  Claim C3. For a member that passes the status gate (role Dev, or Status Active, a
  frame without a Status column counting as Active): when the frame has a Password column
  and the stored text is 64 hexadecimal digits, the login succeeds exactly when the hash of
  the password is the stored text; when the stored text is anything else, exactly when the
  password is the stored text; and without a Password column, exactly when the password is
  \<open>password123\<close>. The stored text is \<open>str\<close> of the cell.
\<close>

theorem authenticate_password_rule:
  assumes "\<not> df_empty df" and "''Name'' \<in> set (columns df)"
    and "find (\<lambda>r. r ''Name'' = Str u) (rows df) = Some r"
    and "role = (if ''Role'' \<in> set (columns df) then r ''Role'' else Str [])"
    and "role = Str ''Dev'' \<or> ''Status'' \<notin> set (columns df) \<or> r ''Status'' = Str ''Active''"
    and "stored = py_str (r ''Password'')"
  shows "authenticate_user u pw df =
     (if (if ''Password'' \<in> set (columns df) then
            (if length stored = 64 \<and> (\<forall>c \<in> set stored. c \<in> set ''0123456789abcdefABCDEF'')
             then hash_password pw = stored else pw = stored)
          else pw = ''password123'')
      then Inr (True, Some u, Some role, ''Success'')
      else Inr (False, None, None, ''Invalid credentials''))"
proof -
  have c: "credentials_match pw r df =
     (if ''Password'' \<in> set (columns df) then
        (if length stored = 64 \<and> (\<forall>c \<in> set stored. c \<in> set ''0123456789abcdefABCDEF'')
         then hash_password pw = stored else pw = stored)
      else pw = ''password123'')"
    unfolding credentials_match_def Let_def looks_like_hash_iff assms(6) by (rule refl)
  have g: "\<not> (role \<noteq> Str ''Dev''
             \<and> (if ''Status'' \<in> set (columns df) then r ''Status'' else Str ''Active'')
                 \<noteq> Str ''Active'')"
    using assms(5) by auto
  have "authenticate_user u pw df =
     (if credentials_match pw r df then Inr (True, Some u, Some role, ''Success'')
      else Inr (False, None, None, ''Invalid credentials''))"
    using authenticate_user_found [OF assms(1,2,3), of pw] g
    unfolding Let_def assms(4) [symmetric] by (simp only: if_False)
  then show ?thesis unfolding c .
qed

lemma hash_password_hex_digits:
  "length (hash_password p) = 64
   \<and> (\<forall>c \<in> set (hash_password p). c \<in> set ''0123456789abcdefABCDEF'')"
  using looks_like_hash_hash_password [of p] unfolding looks_like_hash_iff .

text \<open>
  A member with a stored hash, a member with a stored plain text, and a member of a frame
  without Password column.
\<close>

theorem authenticate_password_rule_witness:
  "authenticate_user ''B'' ''pw'' login_directory
     = Inr (True, Some ''B'', Some (Str ''Core Head''), ''Success'')
   \<and> authenticate_user ''P'' ''secret'' login_directory
       = Inr (True, Some ''P'', Some (Str ''Junior Head''), ''Success'')
   \<and> authenticate_user ''P'' ''pw'' login_directory
       = Inr (False, None, None, ''Invalid credentials'')
   \<and> authenticate_user ''C'' ''password123'' heads_directory
       = Inr (True, Some ''C'', Some (Str ''Core Head''), ''Success'')
   \<and> authenticate_user ''C'' ''pw'' heads_directory
       = Inr (False, None, None, ''Invalid credentials'')"
proof -
  have b: "find (\<lambda>r. r ''Name'' = Str ''B'') (rows login_directory)
             = Some (member_row ''B'' ''Core Head'' (hash_password ''pw'') ''Active'' ''A'')"
    by (simp add: login_directory_def member_row_cells)
  have p: "find (\<lambda>r. r ''Name'' = Str ''P'') (rows login_directory)
             = Some (member_row ''P'' ''Junior Head'' ''secret'' ''Active'' ''A'')"
    by (simp add: login_directory_def member_row_cells)
  have c: "find (\<lambda>r. r ''Name'' = Str ''C'') (rows heads_directory)
             = Some (dict_row [(''Name'', Str ''C''), (''Role'', Str ''Core Head''),
                               (''Status'', Str ''Active'')])"
    by (simp add: heads_directory_def dict_row_def)
  have h: "\<not> df_empty heads_directory" "''Name'' \<in> set (columns heads_directory)"
    "''Role'' \<in> set (columns heads_directory)" "''Password'' \<notin> set (columns heads_directory)"
    by (simp_all add: heads_directory_def df_empty_def)
  have 1: "authenticate_user ''B'' ''pw'' login_directory
             = Inr (True, Some ''B'', Some (Str ''Core Head''), ''Success'')"
    using authenticate_password_rule [where df = login_directory and u = "''B''" and pw = "''pw''"
        and stored = "hash_password ''pw''" and role = "Str ''Core Head''", OF _ _ b]
      login_directory_frame hash_password_hex_digits [of "''pw''"]
    by (simp add: member_row_cells)
  have 2: "authenticate_user ''P'' ''secret'' login_directory
             = Inr (True, Some ''P'', Some (Str ''Junior Head''), ''Success'')"
    using authenticate_password_rule [where df = login_directory and u = "''P''"
        and pw = "''secret''" and stored = "''secret''" and role = "Str ''Junior Head''", OF _ _ p]
      login_directory_frame
    by (simp add: member_row_cells)
  have 3: "authenticate_user ''P'' ''pw'' login_directory
             = Inr (False, None, None, ''Invalid credentials'')"
    using authenticate_password_rule [where df = login_directory and u = "''P''"
        and pw = "''pw''" and stored = "''secret''" and role = "Str ''Junior Head''", OF _ _ p]
      login_directory_frame
    by (simp add: member_row_cells)
  have 4: "authenticate_user ''C'' ''password123'' heads_directory
             = Inr (True, Some ''C'', Some (Str ''Core Head''), ''Success'')"
    using authenticate_password_rule [where df = heads_directory and u = "''C''"
        and pw = "''password123''" and stored = "py_str NaN" and role = "Str ''Core Head''",
        OF _ _ c] h
    by (simp add: dict_row_def)
  have 5: "authenticate_user ''C'' ''pw'' heads_directory
             = Inr (False, None, None, ''Invalid credentials'')"
    using authenticate_password_rule [where df = heads_directory and u = "''C''"
        and pw = "''pw''" and stored = "py_str NaN" and role = "Str ''Core Head''",
        OF _ _ c] h
    by (simp add: dict_row_def)
  from 1 2 3 4 5 show ?thesis by blast
qed

text \<open>
  Claim C9. A member whose role is Dev and who supplies the right password is logged in
  whatever the Status cell holds: the hypotheses put no condition on it, so Suspended and
  every other value are covered, not only Pending.
\<close>

theorem dev_login_ignores_status:
  assumes "\<not> df_empty df" and "''Name'' \<in> set (columns df)"
    and "find (\<lambda>r. r ''Name'' = Str u) (rows df) = Some r"
    and "''Role'' \<in> set (columns df)" and "r ''Role'' = Str ''Dev''"
    and "r ''Status'' = status"
    and "credentials_match pw r df"
  shows "authenticate_user u pw df = Inr (True, Some u, Some (Str ''Dev''), ''Success'')"
  using authenticate_user_found [OF assms(1,2,3), of pw] assms(4,5,7) by (simp add: Let_def)

text \<open>The suspended Dev of the example directory logs in with its password.\<close>

theorem dev_login_ignores_status_witness:
  "authenticate_user ''A'' ''pw'' login_directory
     = Inr (True, Some ''A'', Some (Str ''Dev''), ''Success'')"
proof -
  have a: "find (\<lambda>r. r ''Name'' = Str ''A'') (rows login_directory)
             = Some (member_row ''A'' ''Dev'' (hash_password ''pw'') ''Suspended'' ''System'')"
    by (simp add: login_directory_def member_row_cells)
  have m: "credentials_match ''pw''
             (member_row ''A'' ''Dev'' (hash_password ''pw'') ''Suspended'' ''System'')
             login_directory"
    by (rule credentials_match_hashed) (rule login_directory_frame)
  show ?thesis
    by (rule dev_login_ignores_status [where status = "Str ''Suspended''",
          OF login_directory_frame(1,2) a login_directory_frame(3) _ _ m])
       (simp_all add: member_row_cells)
qed

section \<open>Properties of registration\<close>

lemma new_user_keys:
  "map fst (new_user name pw role df now) = expected_columns"
  by (simp add: new_user_def expected_columns_def Let_def split: prod.splits)

lemma new_user_cells:
  "dict_row (new_user name pw role df now) ''Name'' = Str name"
  "dict_row (new_user name pw role df now) ''Role'' = Str role"
  "dict_row (new_user name pw role df now) ''Password'' = Str (hash_password pw)"
  "dict_row (new_user name pw role df now) ''Status'' =
     Str (if role = ''Dev'' \<and> df_empty df then ''Active'' else ''Pending'')"
  "dict_row (new_user name pw role df now) ''ApprovedBy'' =
     Str (if role = ''Dev'' \<and> df_empty df then ''System'' else [])"
  by (simp_all add: new_user_def dict_row_def Let_def)

lemma single_row_frame_not_empty: "d \<noteq> [] \<Longrightarrow> \<not> df_empty (single_row_frame d)"
  by (simp add: single_row_frame_def df_empty_def)

lemma new_user_not_Nil: "new_user name pw role df now \<noteq> []"
  by (simp add: new_user_def Let_def split: prod.splits)

lemma register_saved_frame:
  "fst (register_saved role df sheet_ok) = sheet_ok
   \<and> snd (snd (register_saved role df sheet_ok)) = df"
  by (simp add: register_saved_def)

text \<open>
  What \<open>register_user\<close> computes. It refuses a name that a row of the directory
  already has. Otherwise it appends one row for the new member, with the hash of the
  password, and reports the outcome of the sheet write; the new row has Status Active and
  ApprovedBy System exactly when the role is Dev and the frame was empty (line 262 tests
  \<open>members_df.empty\<close>, not whether a Dev exists), and Status Pending and an empty
  ApprovedBy in every other case.
\<close>

lemma register_user_computes:
  "(\<not> df_empty df \<and> ''Name'' \<in> set (columns df) \<and> (\<exists>r \<in> set (rows df). r ''Name'' = Str name)
      \<longrightarrow> register_user name pw role df now sheet_ok = Inr (False, ''User already exists.'', df))
   \<and> (df_empty df \<or> ''Name'' \<in> set (columns df) \<and> (\<forall>r \<in> set (rows df). r ''Name'' \<noteq> Str name)
      \<longrightarrow> (\<exists>msg df'. register_user name pw role df now sheet_ok = Inr (sheet_ok, msg, df')
             \<and> length (rows df') = (if df_empty df then 1 else length (rows df) + 1)
             \<and> last (rows df') ''Name'' = Str name
             \<and> last (rows df') ''Role'' = Str role
             \<and> last (rows df') ''Password'' = Str (hash_password pw)
             \<and> last (rows df') ''Status'' =
                 Str (if role = ''Dev'' \<and> df_empty df then ''Active'' else ''Pending'')
             \<and> last (rows df') ''ApprovedBy'' =
                 Str (if role = ''Dev'' \<and> df_empty df then ''System'' else [])))"
proof (intro conjI impI)
  assume "\<not> df_empty df \<and> ''Name'' \<in> set (columns df) \<and> (\<exists>r \<in> set (rows df). r ''Name'' = Str name)"
  then show "register_user name pw role df now sheet_ok = Inr (False, ''User already exists.'', df)"
    by (simp add: register_user_def Let_def list_ex_iff)
next
  assume a: "df_empty df \<or> ''Name'' \<in> set (columns df) \<and> (\<forall>r \<in> set (rows df). r ''Name'' \<noteq> Str name)"
  define user where "user = new_user name pw role df now"
  define df' where "df' = (if df_empty df then single_row_frame user else concat_row df user)"
  have r: "register_user name pw role df now sheet_ok = Inr (register_saved role df' sheet_ok)"
    using a by (auto simp: register_user_def Let_def list_ex_iff df'_def user_def)
  have l: "last (rows df') = dict_row user"
    "length (rows df') = (if df_empty df then 1 else length (rows df) + 1)"
    by (simp_all add: df'_def single_row_frame_def concat_row_def)
  obtain msg where m: "register_saved role df' sheet_ok = (sheet_ok, msg, df')"
    using register_saved_frame [of role df' sheet_ok]
    by (cases "register_saved role df' sheet_ok") auto
  show "\<exists>msg df'. register_user name pw role df now sheet_ok = Inr (sheet_ok, msg, df')
             \<and> length (rows df') = (if df_empty df then 1 else length (rows df) + 1)
             \<and> last (rows df') ''Name'' = Str name
             \<and> last (rows df') ''Role'' = Str role
             \<and> last (rows df') ''Password'' = Str (hash_password pw)
             \<and> last (rows df') ''Status'' =
                 Str (if role = ''Dev'' \<and> df_empty df then ''Active'' else ''Pending'')
             \<and> last (rows df') ''ApprovedBy'' =
                 Str (if role = ''Dev'' \<and> df_empty df then ''System'' else [])"
    using r m l new_user_cells [of name pw role df now] unfolding user_def [symmetric]
    by (intro exI [of _ msg] exI [of _ df']) simp
qed

text \<open>
  A Dev registered into the empty frame is active; a Junior Head registered into the
  directory of the pending Core Head is pending; the name of that Core Head is taken.
\<close>

lemma register_user_examples:
  "(\<exists>msg df'. register_user ''A'' ''pw'' ''Dev'' no_members ''2024-01-02 00:00:00'' True
        = Inr (True, msg, df')
      \<and> length (rows df') = 1
      \<and> last (rows df') ''Status'' = Str ''Active''
      \<and> last (rows df') ''ApprovedBy'' = Str ''System'')
   \<and> (\<exists>msg df'. register_user ''J'' ''pw'' ''Junior Head'' pending_head_directory
          ''2024-01-02 00:00:00'' True = Inr (True, msg, df')
      \<and> length (rows df') = 2
      \<and> last (rows df') ''Status'' = Str ''Pending''
      \<and> last (rows df') ''ApprovedBy'' = Str [])
   \<and> register_user ''B'' ''pw'' ''Junior Head'' pending_head_directory ''2024-01-02 00:00:00'' True
       = Inr (False, ''User already exists.'', pending_head_directory)"
proof -
  have e: "df_empty no_members" by (simp add: no_members_def df_empty_def)
  have p: "\<not> df_empty pending_head_directory" "''Name'' \<in> set (columns pending_head_directory)"
    "\<forall>r \<in> set (rows pending_head_directory). r ''Name'' \<noteq> Str ''J''"
    "\<exists>r \<in> set (rows pending_head_directory). r ''Name'' = Str ''B''"
    "length (rows pending_head_directory) = 1"
    by (simp_all add: pending_head_directory_def df_empty_def expected_columns_def
          member_row_cells)
  have 1: "\<exists>msg df'. register_user ''A'' ''pw'' ''Dev'' no_members ''2024-01-02 00:00:00'' True
        = Inr (True, msg, df')
      \<and> length (rows df') = 1
      \<and> last (rows df') ''Status'' = Str ''Active''
      \<and> last (rows df') ''ApprovedBy'' = Str ''System''"
    using register_user_computes [where df = no_members and name = "''A''" and pw = "''pw''"
        and role = "''Dev''" and now = "''2024-01-02 00:00:00''" and sheet_ok = True] e
    by auto
  have 2: "\<exists>msg df'. register_user ''J'' ''pw'' ''Junior Head'' pending_head_directory
          ''2024-01-02 00:00:00'' True = Inr (True, msg, df')
      \<and> length (rows df') = 2
      \<and> last (rows df') ''Status'' = Str ''Pending''
      \<and> last (rows df') ''ApprovedBy'' = Str []"
    using register_user_computes [where df = pending_head_directory and name = "''J''"
        and pw = "''pw''" and role = "''Junior Head''" and now = "''2024-01-02 00:00:00''"
        and sheet_ok = True] p
    by auto
  have 3: "register_user ''B'' ''pw'' ''Junior Head'' pending_head_directory
             ''2024-01-02 00:00:00'' True
           = Inr (False, ''User already exists.'', pending_head_directory)"
    using register_user_computes [where df = pending_head_directory and name = "''B''"
        and pw = "''pw''" and role = "''Junior Head''" and now = "''2024-01-02 00:00:00''"
        and sheet_ok = True] p
    by blast
  from 1 2 3 show ?thesis by blast
qed

lemma first_dev_directory_frame:
  "\<not> df_empty first_dev_directory"
  "columns first_dev_directory = expected_columns"
  "rows first_dev_directory =
     [\<lambda>c. if c \<in> set expected_columns
          then member_row ''B'' ''Core Head'' (hash_password ''pw'') ''Pending'' [] c else NaN,
      dict_row (new_user ''A'' ''pw'' ''Dev'' pending_head_directory ''2024-01-02 00:00:00'')]"
proof -
  show "columns first_dev_directory = expected_columns"
    "rows first_dev_directory =
     [\<lambda>c. if c \<in> set expected_columns
          then member_row ''B'' ''Core Head'' (hash_password ''pw'') ''Pending'' [] c else NaN,
      dict_row (new_user ''A'' ''pw'' ''Dev'' pending_head_directory ''2024-01-02 00:00:00'')]"
    by (simp_all add: first_dev_directory_def concat_row_def pending_head_directory_def
          new_user_keys)
  then show "\<not> df_empty first_dev_directory"
    by (simp add: df_empty_def expected_columns_def)
qed

lemma first_dev_directory_cells:
  "(rows first_dev_directory ! 0) ''Name'' = Str ''B''"
  "(rows first_dev_directory ! 0) ''Role'' = Str ''Core Head''"
  "(rows first_dev_directory ! 1) ''Name'' = Str ''A''"
  "(rows first_dev_directory ! 1) ''Role'' = Str ''Dev''"
  "(rows first_dev_directory ! 1) ''Status'' = Str ''Pending''"
  "(rows first_dev_directory ! 1) ''ApprovedBy'' = Str []"
proof -
  have p: "\<not> df_empty pending_head_directory"
    by (simp add: pending_head_directory_def df_empty_def expected_columns_def)
  show "(rows first_dev_directory ! 0) ''Name'' = Str ''B''"
    "(rows first_dev_directory ! 0) ''Role'' = Str ''Core Head''"
    by (simp_all add: first_dev_directory_frame expected_columns_def member_row_cells)
  show "(rows first_dev_directory ! 1) ''Name'' = Str ''A''"
    "(rows first_dev_directory ! 1) ''Role'' = Str ''Dev''"
    "(rows first_dev_directory ! 1) ''Status'' = Str ''Pending''"
    "(rows first_dev_directory ! 1) ''ApprovedBy'' = Str []"
    using p by (simp_all add: first_dev_directory_frame new_user_cells)
qed

text \<open>
  Claim C4. The claim holds of a Dev registered into an empty frame and of every role
  other than Dev (\<open>register_user_computes\<close>), and the code departs from it for the first
  Dev of a directory that is not empty. The directory holds one pending Core Head and no
  Dev; the Dev registered into it, the first Dev ever created, is stored with Status
  Pending and an empty ApprovedBy, not with Active and System, and is told to await the
  approval of a parent Dev. The branch of line 262 is taken on \<open>members_df.empty\<close>,
  while its comments speak of the first Dev (line 263) and of further Devs (line 267).
\<close>

theorem register_first_dev_stored_pending:
  "length (rows pending_head_directory) = 1
   \<and> hd (rows pending_head_directory) ''Role'' = Str ''Core Head''
   \<and> register_user ''A'' ''pw'' ''Dev'' pending_head_directory ''2024-01-02 00:00:00'' True
       = Inr (True, ''Dev registration submitted! Awaiting approval by the parent Dev.'',
              first_dev_directory)
   \<and> length (rows first_dev_directory) = 2
   \<and> (rows first_dev_directory ! 1) ''Name'' = Str ''A''
   \<and> (rows first_dev_directory ! 1) ''Role'' = Str ''Dev''
   \<and> (rows first_dev_directory ! 1) ''Status'' = Str ''Pending''
   \<and> (rows first_dev_directory ! 1) ''ApprovedBy'' = Str []"
proof -
  have p: "\<not> df_empty pending_head_directory"
    by (simp add: pending_head_directory_def df_empty_def expected_columns_def)
  have 1: "length (rows pending_head_directory) = 1"
    "hd (rows pending_head_directory) ''Role'' = Str ''Core Head''"
    by (simp_all add: pending_head_directory_def member_row_cells)
  have 2: "register_user ''A'' ''pw'' ''Dev'' pending_head_directory ''2024-01-02 00:00:00'' True
       = Inr (True, ''Dev registration submitted! Awaiting approval by the parent Dev.'',
              first_dev_directory)"
    using p first_dev_directory_frame(1)
    unfolding first_dev_directory_def
    by (simp add: register_user_def register_saved_def Let_def list_ex_iff)
       (simp add: pending_head_directory_def expected_columns_def member_row_cells)
  have 3: "length (rows first_dev_directory) = 2"
    by (simp add: first_dev_directory_frame)
  from 1 2 3 first_dev_directory_cells(3,4,5,6) show ?thesis by simp
qed

text \<open>
  The state is a dead end: \<open>approve_user\<close> looks for the parent Dev among the rows
  with role Dev and ApprovedBy System (lines 310-316), finds none, and refuses the
  approval of that Dev under every approver name, whatever the sheet write would do.
\<close>

lemma first_dev_never_approved:
  "approve_user ''A'' first_dev_directory approver sheet_ok
     = (False, ''Only the parent Dev can approve new Devs.'', first_dev_directory)"
proof -
  have i: "name_index first_dev_directory ''A'' = Inr 1"
    using first_dev_directory_cells
    by (simp add: name_index_def first_dev_directory_frame(2) expected_columns_def)
       (simp add: first_dev_directory_frame(3) expected_columns_def member_row_cells
          new_user_cells)
  have c: "''Role'' \<in> set (columns first_dev_directory)"
    "''ApprovedBy'' \<in> set (columns first_dev_directory)"
    by (simp_all add: first_dev_directory_frame(2) expected_columns_def)
  have p: "\<not> df_empty pending_head_directory"
    by (simp add: pending_head_directory_def df_empty_def expected_columns_def)
  have f: "filter (\<lambda>r. r ''Role'' = Str ''Dev'' \<and> r ''ApprovedBy'' = Str ''System'')
             (rows first_dev_directory) = []"
    using p
    by (simp add: first_dev_directory_frame(3) expected_columns_def member_row_cells
          new_user_cells)
  show ?thesis
    using i c f first_dev_directory_cells(4)
    by (simp add: approve_user_def approve_try_def Let_def)
qed

text \<open>
  Claim C10. Registering a Dev into an empty directory and logging in with the same
  name and password succeeds with the role Dev: the frame that \<open>register_user\<close>
  builds holds the hash of the password, which passes the test of line 242, so that
  \<open>authenticate_user\<close> compares hashes. The registration reports the outcome of the
  sheet write.
\<close>

theorem register_then_authenticate:
  assumes "df_empty df"
  shows "\<exists>msg df'. register_user name pw ''Dev'' df now sheet_ok = Inr (sheet_ok, msg, df')
           \<and> authenticate_user name pw df' = Inr (True, Some name, Some (Str ''Dev''), ''Success'')"
proof -
  define user where "user = new_user name pw ''Dev'' df now"
  define df' where "df' = single_row_frame user"
  have r: "register_user name pw ''Dev'' df now sheet_ok
             = Inr (register_saved ''Dev'' df' sheet_ok)"
    using assms by (simp add: register_user_def Let_def df'_def user_def)
  obtain msg where m: "register_saved ''Dev'' df' sheet_ok = (sheet_ok, msg, df')"
    using register_saved_frame [of "''Dev''" df' sheet_ok]
    by (cases "register_saved ''Dev'' df' sheet_ok") auto
  have cols: "columns df' = expected_columns" "rows df' = [dict_row user]"
    by (simp_all add: df'_def single_row_frame_def user_def new_user_keys)
  have cells: "dict_row user ''Name'' = Str name" "dict_row user ''Role'' = Str ''Dev''"
    "dict_row user ''Password'' = Str (hash_password pw)"
    unfolding user_def by (simp_all add: new_user_cells)
  have f: "find (\<lambda>r. r ''Name'' = Str name) (rows df') = Some (dict_row user)"
    by (simp add: cols cells)
  have ne: "\<not> df_empty df'" "''Name'' \<in> set (columns df')" "''Role'' \<in> set (columns df')"
    "''Password'' \<in> set (columns df')"
    by (simp_all add: cols df_empty_def expected_columns_def)
  have c: "credentials_match pw (dict_row user) df'"
    using ne(4) by (simp add: credentials_match_def cells looks_like_hash_hash_password)
  have "authenticate_user name pw df' = Inr (True, Some name, Some (Str ''Dev''), ''Success'')"
    using authenticate_user_found [OF ne(1,2) f, of pw] ne(3) cells c by (simp add: Let_def)
  with r m show ?thesis by auto
qed

text \<open>The round trip on the frame without rows.\<close>

theorem register_then_authenticate_witness:
  "\<exists>msg df'. register_user ''A'' ''pw'' ''Dev'' no_members ''2024-01-02 00:00:00'' True
                = Inr (True, msg, df')
     \<and> authenticate_user ''A'' ''pw'' df' = Inr (True, Some ''A'', Some (Str ''Dev''), ''Success'')"
proof -
  have e: "df_empty no_members" by (simp add: no_members_def df_empty_def)
  show ?thesis
    by (rule register_then_authenticate [OF e])
qed

section \<open>Properties of the membership lifecycle\<close>

subsection \<open>Frame operations\<close>

lemma index_where_Some:
  "index_where p xs = Some i \<Longrightarrow> i < length xs \<and> p (xs ! i) \<and> (\<forall>j < i. \<not> p (xs ! j))"
proof (induction xs arbitrary: i)
  case Nil
  then show ?case by simp
next
  case (Cons x xs)
  show ?case
  proof (cases "p x")
    case True
    with Cons.prems show ?thesis by simp
  next
    case False
    with Cons.prems obtain k where k: "index_where p xs = Some k" "i = Suc k" by auto
    from Cons.IH [OF k(1)] False k(2) show ?thesis by (auto simp: less_Suc_eq_0_disj)
  qed
qed

lemma index_where_None: "index_where p xs = None \<longleftrightarrow> (\<forall>x \<in> set xs. \<not> p x)"
  by (induction xs) auto

lemma name_index_found:
  assumes "name_index df n = Inr i"
  shows "''Name'' \<in> set (columns df) \<and> i < length (rows df) \<and> (rows df ! i) ''Name'' = Str n"
proof -
  from assms have c: "''Name'' \<in> set (columns df)"
    and "index_where (\<lambda>r. r ''Name'' = Str n) (rows df) = Some i"
    by (auto simp: name_index_def split: if_splits option.splits)
  from index_where_Some [OF this(2)] c show ?thesis by simp
qed

lemma name_index_exists:
  assumes "''Name'' \<in> set (columns df)" and "\<exists>r \<in> set (rows df). r ''Name'' = Str n"
  shows "\<exists>i. name_index df n = Inr i"
proof -
  from assms(2) have "index_where (\<lambda>r. r ''Name'' = Str n) (rows df) \<noteq> None"
    by (simp add: index_where_None)
  with assms(1) show ?thesis by (auto simp: name_index_def)
qed

lemma name_index_absent:
  assumes "''Name'' \<notin> set (columns df) \<or> (\<forall>r \<in> set (rows df). r ''Name'' \<noteq> Str n)"
  shows "\<exists>e. name_index df n = Inl e"
proof (cases "''Name'' \<in> set (columns df)")
  case True
  with assms have "index_where (\<lambda>r. r ''Name'' = Str n) (rows df) = None"
    by (simp add: index_where_None)
  with True show ?thesis by (simp add: name_index_def)
next
  case False
  then show ?thesis by (simp add: name_index_def)
qed

lemma set_at_length: "length (rows (set_at df i c v)) = length (rows df)"
  by (simp add: set_at_def)

lemma set_at_columns:
  "columns (set_at df i c v) = (if c \<in> set (columns df) then columns df else columns df @ [c])"
  by (simp add: set_at_def)

lemma set_at_target: "i < length (rows df) \<Longrightarrow> (rows (set_at df i c v) ! i) c = v"
  by (simp add: set_at_def)

lemma set_at_other:
  assumes "j < length (rows df)" and "c' \<in> set (columns df)" and "j \<noteq> i \<or> c' \<noteq> c"
  shows "(rows (set_at df i c v) ! j) c' = (rows df ! j) c'"
proof (cases "c \<in> set (columns df)")
  case True
  with assms show ?thesis
    by (cases "i < length (rows df)") (auto simp: set_at_def nth_list_update)
next
  case False
  with assms(2) have "c' \<noteq> c" by auto
  with assms(1) False show ?thesis
    by (cases "i < length (rows df)") (auto simp: set_at_def nth_list_update)
qed

lemma case_filter_find:
  "(case filter P xs of [] \<Rightarrow> a | x # _ \<Rightarrow> f x) = (case find P xs of None \<Rightarrow> a | Some x \<Rightarrow> f x)"
  by (induction xs) auto

subsection \<open>Approval\<close>

text \<open>
  Claim C5. For a target that exists (\<open>i\<close> is the position of the first row with the
  name), whatever its Status: when its role is not Dev, or when the approver is
  authorized, \<open>approve_user\<close> overwrites the Status of the target with Active and its
  ApprovedBy with the approver's name, touches no other cell, and reports the outcome of
  the sheet write; the approver is authorized for a Dev exactly when its name is the name
  of the bootstrap Dev, the first row with role Dev and ApprovedBy System. When the
  target is a Dev and the approver is not authorized, the call fails and the frame is as
  before.
\<close>

theorem approve_user_rule:
  assumes "name_index df user_name = Inr i" and "''Role'' \<in> set (columns df)"
    and "approved = set_at (set_at df i ''Status'' (Str ''Active'')) i ''ApprovedBy'' (Str approver)"
    and "authorized \<longleftrightarrow> ''ApprovedBy'' \<in> set (columns df)
           \<and> (\<exists>r. find (\<lambda>r. r ''Role'' = Str ''Dev'' \<and> r ''ApprovedBy'' = Str ''System'') (rows df)
                      = Some r \<and> r ''Name'' = Str approver)"
  shows "(rows approved ! i) ''Status'' = Str ''Active''
     \<and> (rows approved ! i) ''ApprovedBy'' = Str approver
     \<and> (\<forall>j c. j < length (rows df) \<and> c \<in> set (columns df)
              \<and> (j \<noteq> i \<or> (c \<noteq> ''Status'' \<and> c \<noteq> ''ApprovedBy''))
           \<longrightarrow> (rows approved ! j) c = (rows df ! j) c)
     \<and> ((rows df ! i) ''Role'' \<noteq> Str ''Dev'' \<or> authorized \<longrightarrow>
          approve_user user_name df approver sheet_ok =
            (if sheet_ok then (True, ''User '' @ user_name @ '' approved successfully!'', approved)
             else (False, ''Error updating user status.'', approved)))
     \<and> ((rows df ! i) ''Role'' = Str ''Dev'' \<and> \<not> authorized \<longrightarrow>
          \<not> fst (approve_user user_name df approver sheet_ok)
          \<and> snd (snd (approve_user user_name df approver sheet_ok)) = df)"
proof -
  from name_index_found [OF assms(1)] have i: "i < length (rows df)" by simp
  define s where "s = set_at df i ''Status'' (Str ''Active'')"
  have si: "i < length (rows s)" using i by (simp add: s_def set_at_length)
  have a: "approved = set_at s i ''ApprovedBy'' (Str approver)" by (simp add: assms(3) s_def)
  have 1: "(rows approved ! i) ''ApprovedBy'' = Str approver"
    unfolding a using si by (rule set_at_target)
  have "(rows approved ! i) ''Status'' = (rows s ! i) ''Status''"
    unfolding a by (rule set_at_other) (use si in \<open>simp_all add: s_def set_at_columns\<close>)
  also have "\<dots> = Str ''Active''" unfolding s_def using i by (rule set_at_target)
  finally have 2: "(rows approved ! i) ''Status'' = Str ''Active''" .
  have 3: "(rows approved ! j) c = (rows df ! j) c"
    if "j < length (rows df)" "c \<in> set (columns df)"
       "j \<noteq> i \<or> (c \<noteq> ''Status'' \<and> c \<noteq> ''ApprovedBy'')" for j c
  proof -
    have "(rows approved ! j) c = (rows s ! j) c"
      unfolding a by (rule set_at_other) (use that in \<open>auto simp: s_def set_at_length set_at_columns\<close>)
    also have "\<dots> = (rows df ! j) c"
      unfolding s_def by (rule set_at_other) (use that in auto)
    finally show ?thesis .
  qed
  have t: "approve_try user_name df approver sheet_ok =
     (if (rows df ! i) ''Role'' = Str ''Dev'' then
        (if ''ApprovedBy'' \<notin> set (columns df) then Inl (KeyError ''ApprovedBy'')
         else case find (\<lambda>r. r ''Role'' = Str ''Dev'' \<and> r ''ApprovedBy'' = Str ''System'') (rows df) of
            None \<Rightarrow> Inr (False, ''Only the parent Dev can approve new Devs.'', df)
          | Some parent_dev_row \<Rightarrow>
              if Str approver = parent_dev_row ''Name'' then
                Inr (approve_saved user_name approved sheet_ok)
              else Inr (False, ''Only the parent Dev can approve new Devs.'', df))
      else Inr (approve_saved user_name approved sheet_ok))"
    using assms(1,2) unfolding approve_try_def Let_def assms(3) case_filter_find by simp
  have 4: "approve_user user_name df approver sheet_ok =
            (if sheet_ok then (True, ''User '' @ user_name @ '' approved successfully!'', approved)
             else (False, ''Error updating user status.'', approved))"
    if "(rows df ! i) ''Role'' \<noteq> Str ''Dev'' \<or> authorized"
    using that assms(4) unfolding approve_user_def t
    by (auto simp: approve_saved_def)
  have 5: "\<not> fst (approve_user user_name df approver sheet_ok)
          \<and> snd (snd (approve_user user_name df approver sheet_ok)) = df"
    if "(rows df ! i) ''Role'' = Str ''Dev'' \<and> \<not> authorized"
    using that assms(4) unfolding approve_user_def t
    by (auto split: option.splits)
  from 1 2 3 4 5 show ?thesis by blast
qed

lemma approval_directory_index:
  "name_index approval_directory ''E'' = Inr 1" "name_index approval_directory ''Q'' = Inr 2"
  "''Role'' \<in> set (columns approval_directory)"
  "''ApprovedBy'' \<in> set (columns approval_directory)"
  "(rows approval_directory ! 1) ''Role'' = Str ''Dev''"
  "(rows approval_directory ! 2) ''Role'' = Str ''Junior Head''"
  "find (\<lambda>r. r ''Role'' = Str ''Dev'' \<and> r ''ApprovedBy'' = Str ''System'') (rows approval_directory)
     = Some (member_row ''A'' ''Dev'' (hash_password ''pw'') ''Active'' ''System'')"
  by (simp_all add: name_index_def approval_directory_def expected_columns_def member_row_cells
        numeral_2_eq_2)

text \<open>
  The pending Junior Head is approved under an arbitrary name, the pending Dev is approved
  by the bootstrap Dev and by nobody else.
\<close>

theorem approve_user_rule_witness:
  "approve_user ''Q'' approval_directory ''anyone'' True
     = (True, ''User Q approved successfully!'',
        set_at (set_at approval_directory 2 ''Status'' (Str ''Active''))
          2 ''ApprovedBy'' (Str ''anyone''))
   \<and> (rows (set_at (set_at approval_directory 2 ''Status'' (Str ''Active''))
          2 ''ApprovedBy'' (Str ''anyone'')) ! 2) ''Status'' = Str ''Active''
   \<and> approve_user ''E'' approval_directory ''A'' True
       = (True, ''User E approved successfully!'',
          set_at (set_at approval_directory 1 ''Status'' (Str ''Active''))
            1 ''ApprovedBy'' (Str ''A''))
   \<and> \<not> fst (approve_user ''E'' approval_directory ''B'' True)
   \<and> snd (snd (approve_user ''E'' approval_directory ''B'' True)) = approval_directory"
proof -
  have q: "approve_user ''Q'' approval_directory ''anyone'' True
     = (True, ''User Q approved successfully!'',
        set_at (set_at approval_directory 2 ''Status'' (Str ''Active''))
          2 ''ApprovedBy'' (Str ''anyone''))
   \<and> (rows (set_at (set_at approval_directory 2 ''Status'' (Str ''Active''))
          2 ''ApprovedBy'' (Str ''anyone'')) ! 2) ''Status'' = Str ''Active''"
    using approve_user_rule [where df = approval_directory and user_name = "''Q''" and i = 2
        and approver = "''anyone''" and sheet_ok = True and authorized = False,
        OF approval_directory_index(2,3) refl]
      approval_directory_index
    by (simp add: member_row_cells)
  have e: "approve_user ''E'' approval_directory ''A'' True
       = (True, ''User E approved successfully!'',
          set_at (set_at approval_directory 1 ''Status'' (Str ''Active''))
            1 ''ApprovedBy'' (Str ''A''))"
    using approve_user_rule [where df = approval_directory and user_name = "''E''" and i = 1
        and approver = "''A''" and sheet_ok = True and authorized = True,
        OF approval_directory_index(1,3) refl]
      approval_directory_index
    by (simp add: member_row_cells)
  have b: "\<not> fst (approve_user ''E'' approval_directory ''B'' True)
   \<and> snd (snd (approve_user ''E'' approval_directory ''B'' True)) = approval_directory"
    using approve_user_rule [where df = approval_directory and user_name = "''E''" and i = 1
        and approver = "''B''" and sheet_ok = True and authorized = False,
        OF approval_directory_index(1,3) refl]
      approval_directory_index
    by (simp add: member_row_cells)
  from q e b show ?thesis by blast
qed

subsection \<open>Suspension, reactivation, role change and deletion\<close>

text \<open>
  Claim C6, as amended. \<open>suspend_user\<close>, \<open>reactivate_user\<close> and
  \<open>update_user_role\<close> fail when no row has the name (or the frame has no Name column)
  and leave the frame as it is. When a row has the name and the sheet write succeeds, each
  succeeds with the frame in which the one cell, Status or Role, of the first row with that
  name is overwritten: the number of rows and every other cell of the frame are as before
  (pandas adds the column when the frame does not have it). \<open>delete_user\<close> does not
  fail for an absent name: on every frame with a Name column it succeeds when the write
  does, and keeps exactly the rows whose name differs, which is the whole frame when the
  name is absent; without a Name column it fails.
\<close>

theorem lifecycle_operations_rule:
  "(''Name'' \<notin> set (columns df) \<or> (\<forall>r \<in> set (rows df). r ''Name'' \<noteq> Str n) \<longrightarrow>
       \<not> fst (suspend_user n df sheet_ok) \<and> snd (snd (suspend_user n df sheet_ok)) = df
     \<and> \<not> fst (reactivate_user n df sheet_ok) \<and> snd (snd (reactivate_user n df sheet_ok)) = df
     \<and> \<not> fst (update_user_role n new_role df sheet_ok)
     \<and> snd (snd (update_user_role n new_role df sheet_ok)) = df)
   \<and> (''Name'' \<in> set (columns df) \<and> (\<exists>r \<in> set (rows df). r ''Name'' = Str n) \<longrightarrow>
        (\<exists>i. name_index df n = Inr i))
   \<and> (\<forall>i. name_index df n = Inr i \<longrightarrow>
        i < length (rows df) \<and> (rows df ! i) ''Name'' = Str n
      \<and> suspend_user n df True =
          (True, ''User '' @ n @ '' suspended successfully!'',
           set_at df i ''Status'' (Str ''Suspended''))
      \<and> reactivate_user n df True =
          (True, ''User '' @ n @ '' reactivated successfully!'',
           set_at df i ''Status'' (Str ''Active''))
      \<and> update_user_role n new_role df True =
          (True, ''User '' @ n @ [CHR 0x27] @ ''s role updated to '' @ new_role @ ''!'',
           set_at df i ''Role'' (Str new_role))
      \<and> (\<forall>c v. length (rows (set_at df i c v)) = length (rows df)
            \<and> (rows (set_at df i c v) ! i) c = v
            \<and> (\<forall>j c'. j < length (rows df) \<and> c' \<in> set (columns df) \<and> (j \<noteq> i \<or> c' \<noteq> c)
                  \<longrightarrow> (rows (set_at df i c v) ! j) c' = (rows df ! j) c')))
   \<and> (''Name'' \<in> set (columns df) \<longrightarrow>
        delete_user n df True =
          (True, ''User '' @ n @ '' deleted successfully!'',
           df\<lparr>rows := filter (\<lambda>r. r ''Name'' \<noteq> Str n) (rows df)\<rparr>))
   \<and> (''Name'' \<in> set (columns df) \<and> (\<forall>r \<in> set (rows df). r ''Name'' \<noteq> Str n) \<longrightarrow>
        delete_user n df True = (True, ''User '' @ n @ '' deleted successfully!'', df))
   \<and> (''Name'' \<notin> set (columns df) \<longrightarrow>
        \<not> fst (delete_user n df sheet_ok) \<and> snd (snd (delete_user n df sheet_ok)) = df)"
proof (intro conjI impI allI)
  assume "''Name'' \<notin> set (columns df) \<or> (\<forall>r \<in> set (rows df). r ''Name'' \<noteq> Str n)"
  from name_index_absent [OF this] obtain e where e: "name_index df n = Inl e" ..
  show "\<not> fst (suspend_user n df sheet_ok)" "snd (snd (suspend_user n df sheet_ok)) = df"
    "\<not> fst (reactivate_user n df sheet_ok)" "snd (snd (reactivate_user n df sheet_ok)) = df"
    "\<not> fst (update_user_role n new_role df sheet_ok)"
    "snd (snd (update_user_role n new_role df sheet_ok)) = df"
    by (simp_all add: suspend_user_def reactivate_user_def update_user_role_def e)
next
  assume "''Name'' \<in> set (columns df) \<and> (\<exists>r \<in> set (rows df). r ''Name'' = Str n)"
  then show "\<exists>i. name_index df n = Inr i" using name_index_exists by blast
next
  fix i assume i: "name_index df n = Inr i"
  from name_index_found [OF i]
  show l: "i < length (rows df)" and "(rows df ! i) ''Name'' = Str n" by simp_all
  show "suspend_user n df True =
          (True, ''User '' @ n @ '' suspended successfully!'',
           set_at df i ''Status'' (Str ''Suspended''))"
    by (simp add: suspend_user_def i)
  show "reactivate_user n df True =
          (True, ''User '' @ n @ '' reactivated successfully!'',
           set_at df i ''Status'' (Str ''Active''))"
    by (simp add: reactivate_user_def i)
  show "update_user_role n new_role df True =
          (True, ''User '' @ n @ [CHR 0x27] @ ''s role updated to '' @ new_role @ ''!'',
           set_at df i ''Role'' (Str new_role))"
    by (simp add: update_user_role_def i)
  fix c v
  show "length (rows (set_at df i c v)) = length (rows df)" by (rule set_at_length)
  show "(rows (set_at df i c v) ! i) c = v" using l by (rule set_at_target)
  fix j c'
  assume "j < length (rows df) \<and> c' \<in> set (columns df) \<and> (j \<noteq> i \<or> c' \<noteq> c)"
  then show "(rows (set_at df i c v) ! j) c' = (rows df ! j) c'"
    using set_at_other by blast
next
  assume "''Name'' \<in> set (columns df)"
  then show "delete_user n df True =
          (True, ''User '' @ n @ '' deleted successfully!'',
           df\<lparr>rows := filter (\<lambda>r. r ''Name'' \<noteq> Str n) (rows df)\<rparr>)"
    by (simp add: delete_user_def)
next
  assume "''Name'' \<in> set (columns df) \<and> (\<forall>r \<in> set (rows df). r ''Name'' \<noteq> Str n)"
  then show "delete_user n df True = (True, ''User '' @ n @ '' deleted successfully!'', df)"
    by (simp add: delete_user_def)
next
  assume "''Name'' \<notin> set (columns df)"
  then show "\<not> fst (delete_user n df sheet_ok)" "snd (snd (delete_user n df sheet_ok)) = df"
    by (simp_all add: delete_user_def)
qed

lemma heads_directory_index:
  "name_index heads_directory ''D'' = Inr 1"
  "''Name'' \<in> set (columns heads_directory)" "''Status'' \<in> set (columns heads_directory)"
  "\<forall>r \<in> set (rows heads_directory). r ''Name'' \<noteq> Str ''Z''"
  "length (rows heads_directory) = 3"
  "(rows heads_directory ! 0) ''Status'' = Str ''Active''"
  by (simp_all add: name_index_def heads_directory_def dict_row_def)

text \<open>
  In the example directory, suspending an unknown name fails; suspending the Domain Head
  overwrites its Status and leaves the Status of the Core Head; deleting the Domain Head
  keeps the two other rows.
\<close>

theorem lifecycle_operations_rule_witness:
  "\<not> fst (suspend_user ''Z'' heads_directory True)
   \<and> snd (snd (suspend_user ''Z'' heads_directory True)) = heads_directory
   \<and> suspend_user ''D'' heads_directory True
       = (True, ''User D suspended successfully!'',
          set_at heads_directory 1 ''Status'' (Str ''Suspended''))
   \<and> (rows (set_at heads_directory 1 ''Status'' (Str ''Suspended'')) ! 1) ''Status''
       = Str ''Suspended''
   \<and> (rows (set_at heads_directory 1 ''Status'' (Str ''Suspended'')) ! 0) ''Status''
       = Str ''Active''
   \<and> delete_user ''D'' heads_directory True
       = (True, ''User D deleted successfully!'',
          heads_directory\<lparr>rows := filter (\<lambda>r. r ''Name'' \<noteq> Str ''D'') (rows heads_directory)\<rparr>)"
proof -
  note z = lifecycle_operations_rule [where df = heads_directory and n = "''Z''"
      and sheet_ok = True and new_role = "''Dev''"]
  note d = lifecycle_operations_rule [where df = heads_directory and n = "''D''"
      and sheet_ok = True and new_role = "''Dev''"]
  have 1: "\<not> fst (suspend_user ''Z'' heads_directory True)
   \<and> snd (snd (suspend_user ''Z'' heads_directory True)) = heads_directory"
    using z heads_directory_index(4) by blast
  from d heads_directory_index(1)
  have 2: "suspend_user ''D'' heads_directory True
       = (True, ''User '' @ ''D'' @ '' suspended successfully!'',
          set_at heads_directory 1 ''Status'' (Str ''Suspended''))"
    and 3: "(rows (set_at heads_directory 1 ''Status'' (Str ''Suspended'')) ! 1) ''Status''
       = Str ''Suspended''"
    and o: "\<And>j c'. j < length (rows heads_directory) \<and> c' \<in> set (columns heads_directory)
             \<and> (j \<noteq> 1 \<or> c' \<noteq> ''Status'')
          \<Longrightarrow> (rows (set_at heads_directory 1 ''Status'' (Str ''Suspended'')) ! j) c'
                = (rows heads_directory ! j) c'"
    by blast+
  have 4: "(rows (set_at heads_directory 1 ''Status'' (Str ''Suspended'')) ! 0) ''Status''
       = Str ''Active''"
    using o [of 0 "''Status''"] heads_directory_index by simp
  have 5: "delete_user ''D'' heads_directory True
       = (True, ''User '' @ ''D'' @ '' deleted successfully!'',
          heads_directory\<lparr>rows := filter (\<lambda>r. r ''Name'' \<noteq> Str ''D'') (rows heads_directory)\<rparr>)"
    using d heads_directory_index(2) by blast
  from 1 2 3 4 5 show ?thesis by simp
qed

text \<open>
  Claim C6 as it is written fails for \<open>delete_user\<close>: no member of the example
  directory is called Z, and deleting Z succeeds, with the directory as it was.
\<close>

theorem delete_unknown_succeeds_counterexample:
  "length (rows heads_directory) = 3
   \<and> (rows heads_directory ! 0) ''Name'' = Str ''C''
   \<and> (rows heads_directory ! 1) ''Name'' = Str ''D''
   \<and> (rows heads_directory ! 2) ''Name'' = Str ''J''
   \<and> delete_user ''Z'' heads_directory True
       = (True, ''User Z deleted successfully!'', heads_directory)"
  by (simp add: delete_user_def heads_directory_def dict_row_def)

section \<open>Properties of the task service\<close>

text \<open>The loop returns as soon as a draw is not in use.\<close>

lemma resample_fresh_at:
  "draws (k + n) \<notin> set ex \<Longrightarrow>
     \<exists>v k'. resample ex draws k = Some (v, k') \<and> v \<notin> set ex \<and> k < k' \<and> v = draws (k' - 1)"
proof (induction n arbitrary: k)
  case 0
  then have "resample ex draws k = Some (draws k, Suc k)"
    by (subst resample.simps) simp
  with 0 show ?case by simp
next
  case (Suc n)
  show ?case
  proof (cases "draws k \<in> set ex")
    case False
    then have "resample ex draws k = Some (draws k, Suc k)"
      by (subst resample.simps) simp
    with False show ?thesis by simp
  next
    case True
    then have r: "resample ex draws k = resample ex draws (Suc k)"
      by (subst resample.simps) simp
    from Suc.prems have "draws (Suc k + n) \<notin> set ex" by simp
    from Suc.IH [OF this] obtain v k' where
      "resample ex draws (Suc k) = Some (v, k')" "v \<notin> set ex" "Suc k < k'" "v = draws (k' - 1)"
      by blast
    with r show ?thesis by (intro exI [of _ v] exI [of _ k']) simp
  qed
qed

text \<open>
  Conversely, what the loop returns is a draw that is not in use; when every draw from
  position \<open>k\<close> on is in use, the loop runs forever.
\<close>

lemma resample_Some_fresh:
  assumes a: "resample ex draws k = Some r"
  shows "\<exists>j\<ge>k. draws j \<notin> set ex \<and> r = (draws j, Suc j)"
proof (rule resample.raw_induct
    [where P = "\<lambda>ex draws k r. \<exists>j\<ge>k. draws j \<notin> set ex \<and> r = (draws j, Suc j)", OF _ a])
  fix f :: "int list \<Rightarrow> (nat \<Rightarrow> int) \<Rightarrow> nat \<Rightarrow> (int \<times> nat) option"
    and ex draws k r
  assume ih: "\<And>ex draws k r. f ex draws k = Some r
                \<Longrightarrow> \<exists>j\<ge>k. draws j \<notin> set ex \<and> r = (draws j, Suc j)"
    and eq: "(let new_id = draws k
              in if new_id \<notin> set ex then Some (new_id, Suc k) else f ex draws (Suc k)) = Some r"
  show "\<exists>j\<ge>k. draws j \<notin> set ex \<and> r = (draws j, Suc j)"
  proof (cases "draws k \<in> set ex")
    case False
    with eq have "r = (draws k, Suc k)" by (simp add: Let_def)
    with False have "k \<le> k \<and> draws k \<notin> set ex \<and> r = (draws k, Suc k)" by simp
    then show ?thesis by (rule exI [of _ k])
  next
    case True
    with eq have "f ex draws (Suc k) = Some r" by (simp add: Let_def)
    then have "\<exists>j\<ge>Suc k. draws j \<notin> set ex \<and> r = (draws j, Suc j)" by (rule ih)
    then obtain j where j: "Suc k \<le> j" "draws j \<notin> set ex" "r = (draws j, Suc j)"
      by (elim exE conjE)
    from j(1) have "k \<le> j" by simp
    with j(2,3) have "k \<le> j \<and> draws j \<notin> set ex \<and> r = (draws j, Suc j)" by simp
    then show ?thesis by (rule exI [of _ j])
  qed
qed

lemma resample_None:
  assumes "\<forall>j\<ge>k. draws j \<in> set ex"
  shows "resample ex draws k = None"
proof (cases "resample ex draws k")
  case None
  then show ?thesis .
next
  case (Some r)
  from resample_Some_fresh [OF Some] assms show ?thesis by blast
qed

lemma task_ids_no_table:
  "df_empty df \<or> ''TaskID'' \<notin> set (columns df) \<Longrightarrow> task_ids parse df = []"
  by (auto simp: task_ids_def df_empty_def existing_ids_def List.map_filter_simps)

lemma generate_unique_taskid_returns:
  assumes "k \<le> j" and "draws j \<notin> set (task_ids parse df)"
  shows "\<exists>v k'. generate_unique_taskid parse df draws k = Some (v, k')
           \<and> v \<notin> set (task_ids parse df) \<and> k < k' \<and> v = draws (k' - 1)"
proof (cases "df_empty df \<or> ''TaskID'' \<notin> set (columns df)")
  case True
  then have "generate_unique_taskid parse df draws k = Some (draws k, Suc k)"
    by (simp add: generate_unique_taskid_def)
  with task_ids_no_table [OF True, of parse] show ?thesis by simp
next
  case False
  then have g: "generate_unique_taskid parse df draws k = resample (task_ids parse df) draws k"
    by (simp add: generate_unique_taskid_def task_ids_def)
  from assms have "draws (k + (j - k)) \<notin> set (task_ids parse df)" by simp
  from resample_fresh_at [where draws = draws and k = k and n = "j - k"
      and ex = "task_ids parse df", OF this] g
  show ?thesis by simp
qed

text \<open>Appending a task puts its identifier, and nothing else, into the identifiers in use.\<close>

lemma new_task_id: "dict_row (new_task v form) ''TaskID'' = Num v"
  by (simp add: new_task_def dict_row_def)

lemma new_task_keys: "''TaskID'' \<in> set (map fst (new_task v form))"
  by (simp add: new_task_def)

lemma map_filter_NaN: "List.map_filter (to_numeric parse) (map (\<lambda>r. NaN) xs) = []"
  by (induction xs) (simp_all add: List.map_filter_simps to_numeric_def)

lemma task_ids_add_task: "task_ids parse (add_task v form df) = task_ids parse df @ [v]"
proof (cases "df_empty df")
  case True
  then have "task_ids parse (add_task v form df) = [v]"
    using new_task_keys [of v form]
    by (simp add: add_task_def single_row_frame_def task_ids_def existing_ids_def
          List.map_filter_simps new_task_id to_numeric_def)
  with task_ids_no_table [of df parse] True show ?thesis by simp
next
  case False
  show ?thesis
  proof (cases "''TaskID'' \<in> set (columns df)")
    case True
    with False show ?thesis
      by (simp add: add_task_def concat_row_def task_ids_def existing_ids_def
            List.map_filter_def new_task_id to_numeric_def comp_def)
  next
    case False
    with \<open>\<not> df_empty df\<close> show ?thesis
      using new_task_keys [of v form] map_filter_NaN [of parse "rows df"]
      by (simp add: add_task_def concat_row_def task_ids_def existing_ids_def
            List.map_filter_def new_task_id to_numeric_def comp_def)
  qed
qed

text \<open>A set that holds fewer than 900000 values of the range misses one of them.\<close>

lemma free_value:
  assumes "card ({100000..999999} \<inter> S) < 900000"
  shows "\<exists>v::int. 100000 \<le> v \<and> v \<le> 999999 \<and> v \<notin> S"
proof (rule ccontr)
  assume "\<not> (\<exists>v::int. 100000 \<le> v \<and> v \<le> 999999 \<and> v \<notin> S)"
  then have "{100000..999999} \<inter> S = {100000..999999}" by auto
  with assms show False by simp
qed

lemma card_range_insert:
  "card ({100000..999999::int} \<inter> insert v S) \<le> Suc (card ({100000..999999} \<inter> S))"
proof -
  have "card ({100000..999999::int} \<inter> insert v S) \<le> card (insert v ({100000..999999} \<inter> S))"
    by (rule card_mono) auto
  also have "\<dots> \<le> Suc (card ({100000..999999} \<inter> S))"
    by (simp add: card_insert_if)
  finally show ?thesis .
qed

lemma assign_tasks_returns:
  assumes range: "\<forall>j. 100000 \<le> draws j \<and> draws j \<le> 999999"
    and recur: "\<forall>k v. 100000 \<le> v \<and> v \<le> 999999 \<longrightarrow> (\<exists>j\<ge>k. draws j = v)"
  shows "card ({100000..999999} \<inter> set (task_ids parse df)) + length forms \<le> 900000 \<Longrightarrow>
     \<exists>ids df' k'. assign_tasks parse forms df draws k = Some (ids, df', k')
        \<and> length ids = length forms \<and> distinct ids
        \<and> (\<forall>v \<in> set ids. 100000 \<le> v \<and> v \<le> 999999 \<and> v \<notin> set (task_ids parse df))
        \<and> set (task_ids parse df') = set (task_ids parse df) \<union> set ids"
proof (induction forms arbitrary: df k)
  case Nil
  then show ?case by simp
next
  case (Cons form forms)
  then have "card ({100000..999999} \<inter> set (task_ids parse df)) < 900000" by simp
  from free_value [OF this] obtain v0 where
    v0: "100000 \<le> v0" "v0 \<le> 999999" "v0 \<notin> set (task_ids parse df)" by blast
  with recur obtain j where j: "k \<le> j" "draws j = v0" by blast
  with v0 have "draws j \<notin> set (task_ids parse df)" by simp
  from generate_unique_taskid_returns [where draws = draws and j = j and k = k
      and parse = parse and df = df, OF j(1) this] obtain v k1 where
    g: "generate_unique_taskid parse df draws k = Some (v, k1)"
    and v: "v \<notin> set (task_ids parse df)" "v = draws (k1 - 1)" by blast
  from v(2) range have vr: "100000 \<le> v" "v \<le> 999999" by simp_all
  define df1 where "df1 = add_task v form df"
  have t1: "set (task_ids parse df1) = insert v (set (task_ids parse df))"
    by (simp add: df1_def task_ids_add_task)
  have "card ({100000..999999} \<inter> set (task_ids parse df1)) + length forms \<le> 900000"
    using Cons.prems card_range_insert [of v "set (task_ids parse df)"] unfolding t1 by simp
  from Cons.IH [OF this, of k1] obtain ids df' k' where
    a: "assign_tasks parse forms df1 draws k1 = Some (ids, df', k')"
    and i: "length ids = length forms" "distinct ids"
      "\<forall>w \<in> set ids. 100000 \<le> w \<and> w \<le> 999999 \<and> w \<notin> set (task_ids parse df1)"
      "set (task_ids parse df') = set (task_ids parse df1) \<union> set ids"
    by blast
  have r: "assign_tasks parse (form # forms) df draws k = Some (v # ids, df', k')"
    using g a by (simp add: df1_def)
  from i(3) t1 have "v \<notin> set ids" by auto
  with i v vr t1 r show ?case
    by (intro exI [of _ "v # ids"] exI [of _ df'] exI [of _ k']) auto
qed

text \<open>
  Claim C7. The draws are results of \<open>random.randint(100000, 999999)\<close>, so each lies
  in the range, and every value of the range keeps occurring among them (which a random
  source does with probability 1; a source that repeats one used identifier forever keeps
  the loop running). Then, for a task table whose identifiers do not cover the range,
  \<open>generate_unique_taskid\<close> returns, and its result lies in the range and is not an
  identifier of the table. When each identifier handed out is appended to the table before
  the next call, as the task creation does, and the range is not exhausted on the way, the
  calls all return, and their results are pairwise distinct, in the range and not among
  the identifiers of the first table.
\<close>

theorem generate_unique_taskid_fresh:
  assumes "\<forall>j. 100000 \<le> draws j \<and> draws j \<le> 999999"
    and "\<forall>k v. 100000 \<le> v \<and> v \<le> 999999 \<longrightarrow> (\<exists>j\<ge>k. draws j = v)"
  shows "(\<not> {100000..999999} \<subseteq> set (task_ids parse df) \<longrightarrow>
            (\<exists>v k'. generate_unique_taskid parse df draws k = Some (v, k')
               \<and> 100000 \<le> v \<and> v \<le> 999999 \<and> v \<notin> set (task_ids parse df)))
     \<and> (card ({100000..999999} \<inter> set (task_ids parse df)) + length forms \<le> 900000 \<longrightarrow>
            (\<exists>ids df' k'. assign_tasks parse forms df draws k = Some (ids, df', k')
               \<and> length ids = length forms \<and> distinct ids
               \<and> (\<forall>v \<in> set ids. 100000 \<le> v \<and> v \<le> 999999 \<and> v \<notin> set (task_ids parse df))
               \<and> set (task_ids parse df') = set (task_ids parse df) \<union> set ids))"
proof (intro conjI impI)
  assume "\<not> {100000..999999} \<subseteq> set (task_ids parse df)"
  then have "\<exists>v0. v0 \<in> {100000..999999} \<and> v0 \<notin> set (task_ids parse df)" by blast
  then obtain v0 where v0: "100000 \<le> v0" "v0 \<le> 999999" "v0 \<notin> set (task_ids parse df)"
    by auto
  with assms(2) obtain j where j: "k \<le> j" "draws j = v0" by blast
  with v0 have "draws j \<notin> set (task_ids parse df)" by simp
  from generate_unique_taskid_returns [where draws = draws and j = j and k = k
      and parse = parse and df = df, OF j(1) this] obtain v k' where
    g: "generate_unique_taskid parse df draws k = Some (v, k')"
    and v: "v \<notin> set (task_ids parse df)" "v = draws (k' - 1)" by blast
  from v(2) assms(1) have "100000 \<le> v" "v \<le> 999999" by simp_all
  with g v(1) show "\<exists>v k'. generate_unique_taskid parse df draws k = Some (v, k')
               \<and> 100000 \<le> v \<and> v \<le> 999999 \<and> v \<notin> set (task_ids parse df)"
    by blast
next
  assume "card ({100000..999999} \<inter> set (task_ids parse df)) + length forms \<le> 900000"
  then show "\<exists>ids df' k'. assign_tasks parse forms df draws k = Some (ids, df', k')
               \<and> length ids = length forms \<and> distinct ids
               \<and> (\<forall>v \<in> set ids. 100000 \<le> v \<and> v \<le> 999999 \<and> v \<notin> set (task_ids parse df))
               \<and> set (task_ids parse df') = set (task_ids parse df) \<union> set ids"
    by (rule assign_tasks_returns [OF assms])
qed

lemma cyclic_draws_range: "\<forall>j. 100000 \<le> cyclic_draws j \<and> cyclic_draws j \<le> 999999"
proof
  fix j :: nat
  have "j mod 900000 < 900000" by simp
  then show "100000 \<le> cyclic_draws j \<and> cyclic_draws j \<le> 999999"
    unfolding cyclic_draws_def by linarith
qed

lemma cyclic_draws_recur:
  "\<forall>k v. 100000 \<le> v \<and> v \<le> 999999 \<longrightarrow> (\<exists>j\<ge>k. cyclic_draws j = v)"
proof (intro allI impI)
  fix k :: nat and v :: int
  assume v: "100000 \<le> v \<and> v \<le> 999999"
  define j where "j = nat (v - 100000) + 900000 * k"
  have "nat (v - 100000) < 900000" using v by arith
  then have "j mod 900000 = nat (v - 100000)" by (simp add: j_def)
  then have "cyclic_draws j = v" using v by (simp add: cyclic_draws_def)
  moreover have "k \<le> j" by (simp add: j_def)
  ultimately show "\<exists>j\<ge>k. cyclic_draws j = v" by blast
qed

lemma one_task_table_ids: "task_ids parse one_task_table = [100000]"
  by (simp add: one_task_table_def single_row_frame_def task_ids_def existing_ids_def
        List.map_filter_simps to_numeric_def new_task_def dict_row_def)

text \<open>
  On the example table the first draw, 100000, is in use and the second, 100001, is
  returned.
\<close>

lemma generate_unique_taskid_example:
  "generate_unique_taskid parse one_task_table cyclic_draws 0 = Some (100001, 2)"
proof -
  have t: "\<not> df_empty one_task_table" "''TaskID'' \<in> set (columns one_task_table)"
    by (simp_all add: one_task_table_def single_row_frame_def df_empty_def new_task_def)
  have e: "existing_ids parse one_task_table = [100000]"
    using one_task_table_ids [of parse] t by (simp add: task_ids_def)
  have "resample [100000] cyclic_draws 0 = resample [100000] cyclic_draws (Suc 0)"
    by (subst resample.simps) (simp add: cyclic_draws_def)
  also have "\<dots> = Some (100001, 2)"
    by (subst resample.simps) (simp add: cyclic_draws_def)
  finally show ?thesis using t e by (simp add: generate_unique_taskid_def)
qed

text \<open>One call, and two calls in a row, on the example table.\<close>

theorem generate_unique_taskid_fresh_witness:
  "(\<exists>v k'. generate_unique_taskid (\<lambda>s. None) one_task_table cyclic_draws 0 = Some (v, k')
       \<and> 100000 \<le> v \<and> v \<le> 999999 \<and> v \<notin> set (task_ids (\<lambda>s. None) one_task_table))
   \<and> (\<exists>ids df' k'. assign_tasks (\<lambda>s. None) [example_form, example_form] one_task_table
                       cyclic_draws 0 = Some (ids, df', k')
       \<and> length ids = length [example_form, example_form] \<and> distinct ids
       \<and> (\<forall>v \<in> set ids. 100000 \<le> v \<and> v \<le> 999999
             \<and> v \<notin> set (task_ids (\<lambda>s. None) one_task_table))
       \<and> set (task_ids (\<lambda>s. None) df') = set (task_ids (\<lambda>s. None) one_task_table) \<union> set ids)"
proof -
  have n: "\<not> {100000..999999} \<subseteq> set (task_ids (\<lambda>s. None) one_task_table)"
  proof
    assume "{100000..999999} \<subseteq> set (task_ids (\<lambda>s. None) one_task_table)"
    moreover have "(100001::int) \<in> {100000..999999}" by simp
    ultimately have "(100001::int) \<in> set (task_ids (\<lambda>s. None) one_task_table)" by blast
    then show False by (simp add: one_task_table_ids)
  qed
  have "{100000..999999} \<inter> set (task_ids (\<lambda>s. None) one_task_table) = {100000}"
    by (simp add: one_task_table_ids)
  then have c: "card ({100000..999999} \<inter> set (task_ids (\<lambda>s. None) one_task_table))
                  + length [example_form, example_form] \<le> 900000"
    by simp
  from generate_unique_taskid_fresh [OF cyclic_draws_range cyclic_draws_recur,
      where parse = "\<lambda>s. None" and df = one_task_table and k = 0
        and forms = "[example_form, example_form]"] n c
  show ?thesis by blast
qed

end
